theory Spec2Isabelle
  imports Complex_Main "HOL-Library.Word"
begin

unbundle bit_operations_syntax

section \<open>Color encoding metadata of lib/jxl/color_encoding_internal.cc\<close>

text \<open>
  A shallow embedding of the color-encoding model: the chromaticity storage
  \<open>Customxy\<close>, the transfer function \<open>CustomTransferFunction\<close>, the aggregate
  \<open>ColorEncoding\<close> with its setters, its field visitor and its description string,
  and the white point adaptation \<open>AdaptToXYZD50\<close>.

  Every mutating member function takes the object and returns the object it leaves
  behind together with its \<open>Status\<close>, also when the status is a failure: the C++
  code mutates in place, so what a failing call has already written stays written.
\<close>

subsection \<open>Status\<close>

text \<open>
  \<open>JXL_FAILURE(msg)\<close> is a failing \<open>Status\<close>; the message is kept (the format
  string, without its arguments) so that each failure site of the source stays
  distinguishable. \<open>JXL_RETURN_IF_ERROR\<close> returns the failing status of its argument.
\<close>

datatype Status = StatusOK | JXL_FAILURE string

fun IsOK :: "Status \<Rightarrow> bool" where
  "IsOK StatusOK = True"
| "IsOK (JXL_FAILURE m) = False"

subsection \<open>Enumerations\<close>

text \<open>
  The scoped enumerations; constructors that several of them share
  (\<open>kUnknown\<close>, \<open>kSRGB\<close>, \<open>kCustom\<close>, \<open>kDCI\<close>) are written qualified, as
  \<open>ColorSpace::kUnknown\<close> is in the source.
\<close>

datatype ColorSpace = kRGB | kGray | kXYB | kUnknown

datatype WhitePoint = kD65 | kCustom | kE | kDCI

datatype Primaries = kSRGB | kCustom | k2100 | kP3

datatype TransferFunction = kSRGB | kLinear | k709 | kPQ | kHLG | kDCI | kUnknown

datatype RenderingIntent = kPerceptual | kRelative | kSaturation | kAbsolute

subsection \<open>Floating point values\<close>

text \<open>
  A \<open>double\<close> or \<open>float\<close> value is a finite real, an infinity or a NaN. Signed
  zeros are not told apart (the code only compares with zero). Comparisons are the
  IEEE ones: every comparison with a NaN is false. The rounding of an arithmetic
  result to the format is not fixed here: each operation takes the rounding function
  of its format (\<open>rnd64\<close> for \<open>double\<close>, \<open>rnd32\<close> for \<open>float\<close>, fields of
  the environment below), which maps the exact real result to the value stored and
  may answer an infinity on overflow.
\<close>

datatype fp = Fin real | PInf | NInf | NaN

fun fp_lt :: "fp \<Rightarrow> fp \<Rightarrow> bool" where
  "fp_lt NaN b = False"
| "fp_lt a NaN = False"
| "fp_lt (Fin a) (Fin b) = (a < b)"
| "fp_lt a NInf = False"
| "fp_lt PInf b = False"
| "fp_lt NInf b = True"
| "fp_lt a PInf = True"

fun fp_eq :: "fp \<Rightarrow> fp \<Rightarrow> bool" where
  "fp_eq NaN b = False"
| "fp_eq a NaN = False"
| "fp_eq a b = (a = b)"

definition fp_le :: "fp \<Rightarrow> fp \<Rightarrow> bool" where
  "fp_le a b = (fp_lt a b \<or> fp_eq a b)"

definition fp_gt :: "fp \<Rightarrow> fp \<Rightarrow> bool" where
  "fp_gt a b = fp_lt b a"

fun isfinite :: "fp \<Rightarrow> bool" where
  "isfinite (Fin a) = True"
| "isfinite a = False"

fun fp_neg :: "fp \<Rightarrow> fp" where
  "fp_neg (Fin a) = Fin (- a)"
| "fp_neg PInf = NInf"
| "fp_neg NInf = PInf"
| "fp_neg NaN = NaN"

text \<open>The sign of a non-NaN value: is it below zero (a zero counts as positive).\<close>

fun fp_negative :: "fp \<Rightarrow> bool" where
  "fp_negative (Fin a) = (a < 0)"
| "fp_negative NInf = True"
| "fp_negative a = False"

fun fp_mul :: "(real \<Rightarrow> fp) \<Rightarrow> fp \<Rightarrow> fp \<Rightarrow> fp" where
  "fp_mul rnd NaN b = NaN"
| "fp_mul rnd a NaN = NaN"
| "fp_mul rnd (Fin a) (Fin b) = rnd (a * b)"
| "fp_mul rnd a b =
     (if a = Fin 0 \<or> b = Fin 0 then NaN
      else if fp_negative a = fp_negative b then PInf else NInf)"

fun fp_div :: "(real \<Rightarrow> fp) \<Rightarrow> fp \<Rightarrow> fp \<Rightarrow> fp" where
  "fp_div rnd NaN b = NaN"
| "fp_div rnd a NaN = NaN"
| "fp_div rnd (Fin a) (Fin b) =
     (if b \<noteq> 0 then rnd (a / b)
      else if a = 0 then NaN
      else if a < 0 then NInf else PInf)"
| "fp_div rnd (Fin a) b = Fin 0"
| "fp_div rnd a (Fin b) = (if fp_negative a = (b < 0) then PInf else NInf)"
| "fp_div rnd a b = NaN"

fun fp_sub :: "(real \<Rightarrow> fp) \<Rightarrow> fp \<Rightarrow> fp \<Rightarrow> fp" where
  "fp_sub rnd NaN b = NaN"
| "fp_sub rnd a NaN = NaN"
| "fp_sub rnd (Fin a) (Fin b) = rnd (a - b)"
| "fp_sub rnd (Fin a) b = fp_neg b"
| "fp_sub rnd a (Fin b) = a"
| "fp_sub rnd a b = (if a = b then NaN else a)"

text \<open>\<open>roundf\<close>: to the nearest integer, halfway cases away from zero.\<close>

definition round_half_away :: "real \<Rightarrow> int" where
  "round_half_away r = (if 0 \<le> r then \<lfloor>r + 1 / 2\<rfloor> else \<lceil>r - 1 / 2\<rceil>)"

fun roundf :: "fp \<Rightarrow> fp" where
  "roundf (Fin a) = Fin (of_int (round_half_away a))"
| "roundf a = a"

text \<open>The conversion of a \<open>double\<close> to \<open>float\<close> rounds a finite value.\<close>

fun fp_to_float :: "(real \<Rightarrow> fp) \<Rightarrow> fp \<Rightarrow> fp" where
  "fp_to_float rnd (Fin a) = rnd a"
| "fp_to_float rnd a = a"

definition trunc_zero :: "real \<Rightarrow> int" where
  "trunc_zero r = (if 0 \<le> r then \<lfloor>r\<rfloor> else \<lceil>r\<rceil>)"

subsection \<open>Data model\<close>

text \<open>\<open>CIExy\<close> and \<open>PrimariesCIExy\<close>: chromaticities as \<open>double\<close> pairs.\<close>

record CIExy =
  xy_x :: fp
  xy_y :: fp

record PrimariesCIExy =
  pr_r :: CIExy
  pr_g :: CIExy
  pr_b :: CIExy

text \<open>\<open>Customxy\<close>: \<open>storage_.x\<close> and \<open>storage_.y\<close>, two \<open>int32_t\<close>.\<close>

record Customxy =
  storage_x :: "32 word"
  storage_y :: "32 word"

text \<open>
  \<open>CustomTransferFunction\<close>: \<open>nonserialized_color_space\<close> and the storage fields
  \<open>have_gamma\<close>, \<open>gamma\<close> (\<open>uint32_t\<close>) and \<open>transfer_function\<close>.
\<close>

record CustomTransferFunction =
  nonserialized_color_space :: ColorSpace
  have_gamma :: bool
  gamma :: "32 word"
  transfer_function :: TransferFunction

text \<open>
  \<open>ColorEncoding\<close>: the fields of \<open>storage_\<close> that the source file reads or
  writes, the four \<open>Customxy\<close> members (\<open>white_\<close>, \<open>red_\<close>, \<open>green_\<close>
  and \<open>blue_\<close> in the source; here with the suffix \<open>custom\<close>), \<open>tf\<close> and the
  \<open>all_default\<close> cache.
\<close>

record ColorEncoding =
  all_default :: bool
  want_icc :: bool
  color_space :: ColorSpace
  white_point :: WhitePoint
  primaries :: Primaries
  rendering_intent :: RenderingIntent
  have_fields :: bool
  cmyk :: bool
  icc :: "8 word list"
  white_custom :: Customxy
  red_custom :: Customxy
  green_custom :: Customxy
  blue_custom :: Customxy
  tf :: CustomTransferFunction

subsection \<open>The environment: what the source file takes from elsewhere\<close>

text \<open>
  The roundings of the two floating point formats, and the constants and helpers that
  the source file uses and that other files of the library define:
  \<open>ApproxEq\<close> (the tolerance comparison), \<open>kMaxGamma\<close> and \<open>kGammaMul\<close>
  (constants of \<open>cms::CustomTransferFunction\<close>), \<open>ToString(double)\<close>,
  \<open>Mul3x3Vector\<close> and \<open>Mul3x3Matrix\<close> (matrix_ops.h), and
  \<open>MaybeCreateProfile\<close> (cms/color_management.h), which answers a status and the
  bytes it leaves in the buffer it was given. The conversion of a
  floating point value that no integer of the target type holds is undefined in C++;
  \<open>undef_i32\<close> and \<open>undef_u32\<close> stand for whatever the conversion produces then.
  \<open>init_gamma\<close> is what the raw gamma of a fresh transfer function holds.
\<close>

type_synonym vec3 = "fp \<times> fp \<times> fp"

type_synonym mat3 = "vec3 \<times> vec3 \<times> vec3"

record env =
  rnd64 :: "real \<Rightarrow> fp"
  rnd32 :: "real \<Rightarrow> fp"
  ApproxEq :: "fp \<Rightarrow> fp \<Rightarrow> bool"
  kMaxGamma :: nat
  kGammaMul :: nat
  ToString_double :: "fp \<Rightarrow> string"
  Mul3x3Vector :: "mat3 \<Rightarrow> vec3 \<Rightarrow> vec3"
  Mul3x3Matrix :: "mat3 \<Rightarrow> mat3 \<Rightarrow> mat3"
  undef_i32 :: "fp \<Rightarrow> 32 word"
  undef_u32 :: "fp \<Rightarrow> 32 word"
  init_gamma :: "32 word"
  MaybeCreateProfile :: "ColorEncoding \<Rightarrow> Status \<times> 8 word list"

text \<open>
  A \<open>double\<close> literal and a \<open>float\<close> literal: the decimal, rounded. The
  integer literals of the source (\<open>0\<close>, \<open>1\<close>, \<open>3\<close>, \<open>4\<close>, \<open>1E6\<close>) are
  values of both formats and are written \<open>Fin\<close> directly.
\<close>

definition lit64 :: "env \<Rightarrow> real \<Rightarrow> fp" where
  "lit64 E r = rnd64 E r"

definition lit32 :: "env \<Rightarrow> real \<Rightarrow> fp" where
  "lit32 E r = rnd32 E r"

text \<open>\<open>static_cast<int32_t>\<close> and the conversion to \<open>uint32_t\<close> of a \<open>float\<close>.\<close>

definition float_to_int32 :: "env \<Rightarrow> fp \<Rightarrow> 32 word" where
  "float_to_int32 E a =
     (case a of
        Fin r \<Rightarrow>
          if - (2 ^ 31) \<le> trunc_zero r \<and> trunc_zero r < 2 ^ 31
          then word_of_int (trunc_zero r) else undef_i32 E a
      | _ \<Rightarrow> undef_i32 E a)"

definition float_to_uint32 :: "env \<Rightarrow> fp \<Rightarrow> 32 word" where
  "float_to_uint32 E a =
     (case a of
        Fin r \<Rightarrow>
          if 0 \<le> trunc_zero r \<and> trunc_zero r < 2 ^ 32
          then word_of_int (trunc_zero r) else undef_u32 E a
      | _ \<Rightarrow> undef_u32 E a)"

text \<open>
  Modelled from the spec: \<open>ApproxEq\<close>, \<open>kMaxGamma\<close>, \<open>kGammaMul\<close>,
  \<open>ToString(double)\<close>, the two matrix products and the profile generator are
  defined outside the source file. The exact environment is one instance of them,
  used to run the model on inputs whose arithmetic is exact: no operation rounds,
  \<open>ApproxEq\<close> is the absolute tolerance comparison with tolerance \<open>1e-3\<close> (the
  spec: "a small relative/absolute tolerance"), \<open>kGammaMul = 1e7\<close> (the spec:
  \<open>raw/1e7\<close>), \<open>kMaxGamma = 8192\<close> (the spec gives no value), and the matrix
  products are the usual ones.
\<close>

fun fp_add_exact :: "fp \<Rightarrow> fp \<Rightarrow> fp" where
  "fp_add_exact a b = fp_sub Fin a (fp_neg b)"

definition dot3 :: "vec3 \<Rightarrow> vec3 \<Rightarrow> fp" where
  "dot3 a b =
     (case a of (a0, a1, a2) \<Rightarrow> case b of (b0, b1, b2) \<Rightarrow>
        fp_add_exact (fp_add_exact (fp_mul Fin a0 b0) (fp_mul Fin a1 b1)) (fp_mul Fin a2 b2))"

definition exact_Mul3x3Vector :: "mat3 \<Rightarrow> vec3 \<Rightarrow> vec3" where
  "exact_Mul3x3Vector a b =
     (case a of (r0, r1, r2) \<Rightarrow> (dot3 r0 b, dot3 r1 b, dot3 r2 b))"

definition col3 :: "mat3 \<Rightarrow> nat \<Rightarrow> vec3" where
  "col3 m j =
     (case m of ((a, b, c), (d, e, f), (g, h, i)) \<Rightarrow>
        if j = 0 then (a, d, g) else if j = 1 then (b, e, h) else (c, f, i))"

definition exact_Mul3x3Matrix :: "mat3 \<Rightarrow> mat3 \<Rightarrow> mat3" where
  "exact_Mul3x3Matrix a b =
     (case a of (r0, r1, r2) \<Rightarrow>
        ((dot3 r0 (col3 b 0), dot3 r0 (col3 b 1), dot3 r0 (col3 b 2)),
         (dot3 r1 (col3 b 0), dot3 r1 (col3 b 1), dot3 r1 (col3 b 2)),
         (dot3 r2 (col3 b 0), dot3 r2 (col3 b 1), dot3 r2 (col3 b 2))))"

fun fp_abs :: "fp \<Rightarrow> fp" where
  "fp_abs (Fin a) = Fin \<bar>a\<bar>"
| "fp_abs NInf = PInf"
| "fp_abs a = a"

definition exact_ApproxEq :: "fp \<Rightarrow> fp \<Rightarrow> bool" where
  "exact_ApproxEq a b = fp_le (fp_abs (fp_sub Fin a b)) (Fin (1 / 1000))"

text \<open>
  In the exact environment the profile generator produces a one-byte stand-in for
  every encoding but XYB, for which it reports that no profile exists.
\<close>

definition exact_MaybeCreateProfile :: "ColorEncoding \<Rightarrow> Status \<times> 8 word list" where
  "exact_MaybeCreateProfile c =
     (if color_space c = kXYB then (JXL_FAILURE ''no ICC profile for XYB'', [])
      else (StatusOK, [1]))"

definition exact_env :: env where
  "exact_env =
     \<lparr> rnd64 = Fin, rnd32 = Fin, ApproxEq = exact_ApproxEq,
       kMaxGamma = 8192, kGammaMul = 10000000,
       ToString_double = (\<lambda>a. ''?''),
       Mul3x3Vector = exact_Mul3x3Vector, Mul3x3Matrix = exact_Mul3x3Matrix,
       undef_i32 = (\<lambda>a. 0), undef_u32 = (\<lambda>a. 0), init_gamma = 0,
       MaybeCreateProfile = exact_MaybeCreateProfile \<rparr>"

subsection \<open>The strings baked into Description\<close>

fun ToString_ColorSpace :: "ColorSpace \<Rightarrow> string" where
  "ToString_ColorSpace kRGB = ''RGB''"
| "ToString_ColorSpace kGray = ''Gra''"
| "ToString_ColorSpace kXYB = ''XYB''"
| "ToString_ColorSpace ColorSpace.kUnknown = ''CS?''"

fun ToString_WhitePoint :: "WhitePoint \<Rightarrow> string" where
  "ToString_WhitePoint kD65 = ''D65''"
| "ToString_WhitePoint WhitePoint.kCustom = ''Cst''"
| "ToString_WhitePoint kE = ''EER''"
| "ToString_WhitePoint WhitePoint.kDCI = ''DCI''"

fun ToString_Primaries :: "Primaries \<Rightarrow> string" where
  "ToString_Primaries Primaries.kSRGB = ''SRG''"
| "ToString_Primaries k2100 = ''202''"
| "ToString_Primaries kP3 = ''DCI''"
| "ToString_Primaries Primaries.kCustom = ''Cst''"

fun ToString_TransferFunction :: "TransferFunction \<Rightarrow> string" where
  "ToString_TransferFunction TransferFunction.kSRGB = ''SRG''"
| "ToString_TransferFunction kLinear = ''Lin''"
| "ToString_TransferFunction k709 = ''709''"
| "ToString_TransferFunction kPQ = ''PeQ''"
| "ToString_TransferFunction kHLG = ''HLG''"
| "ToString_TransferFunction TransferFunction.kDCI = ''DCI''"
| "ToString_TransferFunction TransferFunction.kUnknown = ''TF?''"

fun ToString_RenderingIntent :: "RenderingIntent \<Rightarrow> string" where
  "ToString_RenderingIntent kPerceptual = ''Per''"
| "ToString_RenderingIntent kRelative = ''Rel''"
| "ToString_RenderingIntent kSaturation = ''Sat''"
| "ToString_RenderingIntent kAbsolute = ''Abs''"

subsection \<open>The tiered unsigned integer of the field visitor\<close>

text \<open>
  Modelled from the spec: the field visitor framework (fields.h, pack_signed.h) is not
  part of the source file. Its "tiered unsigned int" takes four distributions; a
  distribution is \<open>Bits(n)\<close> (\<open>n\<close> raw bits), \<open>BitsOffset(n, offset)\<close>
  (\<open>n\<close> raw bits holding \<open>value - offset\<close>) or \<open>Val(v)\<close> (one value, no
  bits). A value can be written with a distribution when it lies in the range of the
  distribution, and can be encoded when one of the four distributions can write it.
  \<open>PackSigned\<close> is the zig-zag packing of a signed value, \<open>UnpackSigned\<close> its
  inverse.
\<close>

datatype U32Distr = Bits nat | BitsOffset nat nat | Val nat

type_synonym U32Enc = "U32Distr list"

fun ExtraBits :: "U32Distr \<Rightarrow> nat" where
  "ExtraBits (Bits n) = n"
| "ExtraBits (BitsOffset n offset) = n"
| "ExtraBits (Val v) = 0"

fun U32Distr_fits :: "U32Distr \<Rightarrow> nat \<Rightarrow> bool" where
  "U32Distr_fits (Bits n) v = (v < 2 ^ n)"
| "U32Distr_fits (BitsOffset n offset) v = (offset \<le> v \<and> v < offset + 2 ^ n)"
| "U32Distr_fits (Val d) v = (v = d)"

definition U32_feasible :: "U32Enc \<Rightarrow> 32 word \<Rightarrow> U32Distr list" where
  "U32_feasible enc value = filter (\<lambda>d. U32Distr_fits d (unat value)) enc"

definition U32_CanEncode :: "U32Enc \<Rightarrow> 32 word \<Rightarrow> bool" where
  "U32_CanEncode enc value = (U32_feasible enc value \<noteq> [])"

definition PackSigned :: "32 word \<Rightarrow> 32 word" where
  "PackSigned v = push_bit 1 v XOR signed_drop_bit 31 v"

definition UnpackSigned :: "32 word \<Rightarrow> 32 word" where
  "UnpackSigned u = drop_bit 1 u XOR (- (u AND 1))"

text \<open>
  The \<open>U32\<close> method of a visitor with state \<open>'v\<close>: from the four distributions,
  the default and the current value to a status, the value afterwards and the visitor
  afterwards. The visitor behind \<open>Bundle::CanEncode\<close> keeps one flag, leaves the
  value alone and always returns success; the flag says whether every value so far
  could be encoded.
\<close>

type_synonym 'v U32_method =
  "U32Enc \<Rightarrow> 32 word \<Rightarrow> 32 word \<Rightarrow> 'v \<Rightarrow> Status \<times> 32 word \<times> 'v"

definition CanEncodeVisitor_U32 :: "bool U32_method" where
  "CanEncodeVisitor_U32 enc default_value value ok =
     (StatusOK, value, ok \<and> U32_CanEncode enc value)"

subsection \<open>Customxy\<close>

definition F64FromCustomxyI32 :: "env \<Rightarrow> 32 word \<Rightarrow> fp" where
  "F64FromCustomxyI32 E i =
     fp_mul (rnd64 E) (Fin (of_int (sint i))) (lit64 E (1 / 1000000))"

text \<open>
  \<open>F64ToCustomxyI32(f, i)\<close>: the second argument is what \<open>*i\<close> holds before the
  call, the second result what it holds afterwards.
\<close>

definition F64ToCustomxyI32 :: "env \<Rightarrow> fp \<Rightarrow> 32 word \<Rightarrow> Status \<times> 32 word" where
  "F64ToCustomxyI32 E f i =
     (if \<not> (fp_le (Fin (- 4)) f \<and> fp_le f (Fin 4))
      then (JXL_FAILURE ''F64 out of bounds for CustomxyI32'', i)
      else (StatusOK,
            float_to_int32 E
              (roundf (fp_to_float (rnd32 E) (fp_mul (rnd64 E) f (Fin 1000000))))))"

definition Customxy_U32Enc :: U32Enc where
  "Customxy_U32Enc =
     [Bits 19, BitsOffset 19 524288, BitsOffset 20 1048576, BitsOffset 21 2097152]"

definition Customxy_VisitFields ::
  "'v U32_method \<Rightarrow> Customxy \<Rightarrow> 'v \<Rightarrow> Status \<times> Customxy \<times> 'v" where
  "Customxy_VisitFields U32 c v =
     (let ux = PackSigned (storage_x c) in
      case U32 Customxy_U32Enc 0 ux v of (st1, ux', v1) \<Rightarrow>
        if \<not> IsOK st1 then (st1, c, v1)
        else
          let c1 = c\<lparr>storage_x := UnpackSigned ux'\<rparr>;
              uy = PackSigned (storage_y c1) in
          case U32 Customxy_U32Enc 0 uy v1 of (st2, uy', v2) \<Rightarrow>
            if \<not> IsOK st2 then (st2, c1, v2)
            else (StatusOK, c1\<lparr>storage_y := UnpackSigned uy'\<rparr>, v2))"

text \<open>
  \<open>Bundle::CanEncode(*this, ...)\<close> runs \<open>VisitFields\<close> with the visitor above;
  the object is the one the pass leaves behind.
\<close>

definition Customxy_CanEncode :: "Customxy \<Rightarrow> bool \<times> Customxy" where
  "Customxy_CanEncode c =
     (case Customxy_VisitFields CanEncodeVisitor_U32 c True of
        (st, c', ok) \<Rightarrow> (IsOK st \<and> ok, c'))"

definition Customxy_Get :: "env \<Rightarrow> Customxy \<Rightarrow> CIExy" where
  "Customxy_Get E c =
     \<lparr> xy_x = F64FromCustomxyI32 E (storage_x c),
       xy_y = F64FromCustomxyI32 E (storage_y c) \<rparr>"

definition Customxy_Set :: "env \<Rightarrow> Customxy \<Rightarrow> CIExy \<Rightarrow> Status \<times> Customxy" where
  "Customxy_Set E c xy =
     (case F64ToCustomxyI32 E (xy_x xy) (storage_x c) of (st1, x') \<Rightarrow>
        let c1 = c\<lparr>storage_x := x'\<rparr> in
        if \<not> IsOK st1 then (st1, c1)
        else
          case F64ToCustomxyI32 E (xy_y xy) (storage_y c1) of (st2, y') \<Rightarrow>
            let c2 = c1\<lparr>storage_y := y'\<rparr> in
            if \<not> IsOK st2 then (st2, c2)
            else
              case Customxy_CanEncode c2 of (ok, c3) \<Rightarrow>
                if \<not> ok then (JXL_FAILURE ''Unable to encode XY %f %f'', c3)
                else (StatusOK, c3))"

subsection \<open>CustomTransferFunction\<close>

text \<open>
  Modelled from the spec: the accessors of the class declaration
  (color_encoding_internal.h), which is not part of the source file. The transfer
  function is an explicit gamma when \<open>have_gamma\<close> is set and a named curve
  otherwise; it is unknown when it is the named curve \<open>kUnknown\<close> without gamma;
  naming a curve clears \<open>have_gamma\<close>; the gamma decodes as \<open>raw / kGammaMul\<close>.
  \<open>GetGamma\<close> and \<open>GetTransferFunction\<close> assert the tag they read: \<open>None\<close>
  is the failed assertion, which ends the process.
\<close>

definition IsGamma :: "CustomTransferFunction \<Rightarrow> bool" where
  "IsGamma t = have_gamma t"

definition IsUnknown :: "CustomTransferFunction \<Rightarrow> bool" where
  "IsUnknown t = (\<not> have_gamma t \<and> transfer_function t = TransferFunction.kUnknown)"

definition GetTransferFunction :: "CustomTransferFunction \<Rightarrow> TransferFunction option" where
  "GetTransferFunction t = (if IsGamma t then None else Some (transfer_function t))"

definition GetGamma :: "env \<Rightarrow> CustomTransferFunction \<Rightarrow> fp option" where
  "GetGamma E t =
     (if \<not> IsGamma t then None
      else Some (fp_div (rnd64 E) (Fin (real (unat (gamma t)))) (Fin (real (kGammaMul E)))))"

definition SetTransferFunction ::
  "CustomTransferFunction \<Rightarrow> TransferFunction \<Rightarrow> CustomTransferFunction" where
  "SetTransferFunction t f = t\<lparr>have_gamma := False, transfer_function := f\<rparr>"

text \<open>
  The lower bound of \<open>SetGamma\<close>, \<open>1.0f / kMaxGamma\<close>: a \<open>float\<close> division,
  the constant converted to \<open>float\<close>.
\<close>

definition gamma_lower_bound :: "env \<Rightarrow> fp" where
  "gamma_lower_bound E = fp_div (rnd32 E) (Fin 1) (rnd32 E (real (kMaxGamma E)))"

definition SetGamma ::
  "env \<Rightarrow> CustomTransferFunction \<Rightarrow> fp \<Rightarrow> Status \<times> CustomTransferFunction" where
  "SetGamma E t g =
     (if fp_lt g (gamma_lower_bound E) \<or> fp_gt g (Fin 1)
      then (JXL_FAILURE ''Invalid gamma %f'', t)
      else
        let t1 = t\<lparr>have_gamma := False\<rparr> in
        if ApproxEq E g (Fin 1)
        then (StatusOK, t1\<lparr>transfer_function := kLinear\<rparr>)
        else if ApproxEq E g (fp_div (rnd64 E) (Fin 1) (lit64 E (26 / 10)))
        then (StatusOK, t1\<lparr>transfer_function := TransferFunction.kDCI\<rparr>)
        else
          (StatusOK,
           t1\<lparr>have_gamma := True,
              gamma := float_to_uint32 E
                 (roundf (fp_to_float (rnd32 E)
                    (fp_mul (rnd64 E) g (Fin (real (kGammaMul E)))))),
              transfer_function := TransferFunction.kUnknown\<rparr>))"

text \<open>
  \<open>SetImplicit\<close>: \<open>None\<close> is \<open>JXL_ASSERT(false)\<close>, reached when
  \<open>SetGamma(1.0 / 3)\<close> fails.
\<close>

definition SetImplicit ::
  "env \<Rightarrow> CustomTransferFunction \<Rightarrow> (bool \<times> CustomTransferFunction) option" where
  "SetImplicit E t =
     (if nonserialized_color_space t = kXYB
      then (case SetGamma E t (fp_div (rnd64 E) (Fin 1) (Fin 3)) of
              (st, t') \<Rightarrow> if \<not> IsOK st then None else Some (True, t'))
      else Some (False, t))"

subsection \<open>ColorEncoding: accessors\<close>

text \<open>
  Modelled from the spec: the one-line accessors of the class declaration.
  \<open>HasPrimaries\<close> holds for the color spaces that are neither Gray nor XYB, the
  white point is implicit exactly for XYB. \<open>SetColorSpace\<close> stores the color space
  and hands it to the transfer function as its \<open>nonserialized_color_space\<close>, so
  that after \<open>SetColorSpace(XYB)\<close> the call \<open>tf.SetImplicit()\<close> returns true
  (scenario B of the spec).
\<close>

definition GetColorSpace :: "ColorEncoding \<Rightarrow> ColorSpace" where
  "GetColorSpace c = color_space c"

definition SetColorSpace :: "ColorEncoding \<Rightarrow> ColorSpace \<Rightarrow> ColorEncoding" where
  "SetColorSpace c cs =
     c\<lparr>color_space := cs, tf := (tf c)\<lparr>nonserialized_color_space := cs\<rparr>\<rparr>"

definition HasPrimaries :: "ColorEncoding \<Rightarrow> bool" where
  "HasPrimaries c = (color_space c \<noteq> kGray \<and> color_space c \<noteq> kXYB)"

definition ImplicitWhitePoint :: "ColorEncoding \<Rightarrow> bool" where
  "ImplicitWhitePoint c = (color_space c = kXYB)"

definition WantICC :: "ColorEncoding \<Rightarrow> bool" where
  "WantICC c = want_icc c"

definition HaveFields :: "ColorEncoding \<Rightarrow> bool" where
  "HaveFields c = have_fields c"

definition ICC :: "ColorEncoding \<Rightarrow> 8 word list" where
  "ICC c = icc c"

subsection \<open>ColorEncoding: white point and primaries\<close>

text \<open>
  \<open>JXL_DASSERT\<close> is compiled out of release builds and is not modelled;
  \<open>JXL_ASSERT\<close> ends the process when it fails, which is the result \<open>None\<close>.
\<close>

definition mk_CIExy :: "fp \<Rightarrow> fp \<Rightarrow> CIExy" where
  "mk_CIExy a b = \<lparr> xy_x = a, xy_y = b \<rparr>"

definition GetWhitePoint :: "env \<Rightarrow> ColorEncoding \<Rightarrow> CIExy" where
  "GetWhitePoint E c =
     (case white_point c of
        WhitePoint.kCustom \<Rightarrow> Customxy_Get E (white_custom c)
      | kD65 \<Rightarrow> mk_CIExy (lit64 E (3127 / 10000)) (lit64 E (3290 / 10000))
      | WhitePoint.kDCI \<Rightarrow> mk_CIExy (lit64 E (314 / 1000)) (lit64 E (351 / 1000))
      | kE \<Rightarrow> mk_CIExy (fp_div (rnd64 E) (Fin 1) (Fin 3)) (fp_div (rnd64 E) (Fin 1) (Fin 3)))"

definition SetWhitePointType :: "ColorEncoding \<Rightarrow> WhitePoint \<Rightarrow> Status \<times> ColorEncoding" where
  "SetWhitePointType c wp = (StatusOK, c\<lparr>white_point := wp\<rparr>)"

definition SetWhitePoint :: "env \<Rightarrow> ColorEncoding \<Rightarrow> CIExy \<Rightarrow> Status \<times> ColorEncoding" where
  "SetWhitePoint E c xy =
     (if fp_eq (xy_x xy) (Fin 0) \<or> fp_eq (xy_y xy) (Fin 0)
      then (JXL_FAILURE ''Invalid white point %f %f'', c)
      else if ApproxEq E (xy_x xy) (lit64 E (3127 / 10000)) \<and>
              ApproxEq E (xy_y xy) (lit64 E (3290 / 10000))
      then (StatusOK, c\<lparr>white_point := kD65\<rparr>)
      else if ApproxEq E (xy_x xy) (fp_div (rnd64 E) (Fin 1) (Fin 3)) \<and>
              ApproxEq E (xy_y xy) (fp_div (rnd64 E) (Fin 1) (Fin 3))
      then (StatusOK, c\<lparr>white_point := kE\<rparr>)
      else if ApproxEq E (xy_x xy) (lit64 E (314 / 1000)) \<and>
              ApproxEq E (xy_y xy) (lit64 E (351 / 1000))
      then (StatusOK, c\<lparr>white_point := WhitePoint.kDCI\<rparr>)
      else
        let c1 = c\<lparr>white_point := WhitePoint.kCustom\<rparr> in
        case Customxy_Set E (white_custom c1) xy of
          (st, w) \<Rightarrow> (st, c1\<lparr>white_custom := w\<rparr>))"

definition SetRenderingIntent ::
  "ColorEncoding \<Rightarrow> RenderingIntent \<Rightarrow> Status \<times> ColorEncoding" where
  "SetRenderingIntent c ri = (StatusOK, c\<lparr>rendering_intent := ri\<rparr>)"

definition mk_Primaries :: "env \<Rightarrow> real \<Rightarrow> real \<Rightarrow> real \<Rightarrow> real \<Rightarrow> real \<Rightarrow> real \<Rightarrow> PrimariesCIExy" where
  "mk_Primaries E rx ry gx gy bx by =
     \<lparr> pr_r = mk_CIExy (lit64 E rx) (lit64 E ry),
       pr_g = mk_CIExy (lit64 E gx) (lit64 E gy),
       pr_b = mk_CIExy (lit64 E bx) (lit64 E by) \<rparr>"

definition GetPrimaries :: "env \<Rightarrow> ColorEncoding \<Rightarrow> PrimariesCIExy option" where
  "GetPrimaries E c =
     (if \<not> HasPrimaries c then None
      else Some
        (case primaries c of
           Primaries.kCustom \<Rightarrow>
             \<lparr> pr_r = Customxy_Get E (red_custom c), pr_g = Customxy_Get E (green_custom c),
               pr_b = Customxy_Get E (blue_custom c) \<rparr>
         | Primaries.kSRGB \<Rightarrow>
             mk_Primaries E (639998686 / 10 ^ 9) (330010138 / 10 ^ 9)
               (300003784 / 10 ^ 9) (600003357 / 10 ^ 9)
               (150002046 / 10 ^ 9) (59997204 / 10 ^ 9)
         | k2100 \<Rightarrow>
             mk_Primaries E (708 / 1000) (292 / 1000) (170 / 1000) (797 / 1000)
               (131 / 1000) (46 / 1000)
         | kP3 \<Rightarrow>
             mk_Primaries E (680 / 1000) (320 / 1000) (265 / 1000) (690 / 1000)
               (150 / 1000) (60 / 1000)))"

definition SetPrimariesType ::
  "ColorEncoding \<Rightarrow> Primaries \<Rightarrow> (Status \<times> ColorEncoding) option" where
  "SetPrimariesType c p =
     (if \<not> HasPrimaries c then None else Some (StatusOK, c\<lparr>primaries := p\<rparr>))"

text \<open>
  The three preset tests of \<open>SetPrimaries\<close>: six tolerance comparisons against
  the literals of the source.
\<close>

definition ApproxEq_primaries ::
  "env \<Rightarrow> PrimariesCIExy \<Rightarrow> real \<Rightarrow> real \<Rightarrow> real \<Rightarrow> real \<Rightarrow> real \<Rightarrow> real \<Rightarrow> bool" where
  "ApproxEq_primaries E xy rx ry gx gy bx by =
     (ApproxEq E (xy_x (pr_r xy)) (lit64 E rx) \<and> ApproxEq E (xy_y (pr_r xy)) (lit64 E ry) \<and>
      ApproxEq E (xy_x (pr_g xy)) (lit64 E gx) \<and> ApproxEq E (xy_y (pr_g xy)) (lit64 E gy) \<and>
      ApproxEq E (xy_x (pr_b xy)) (lit64 E bx) \<and> ApproxEq E (xy_y (pr_b xy)) (lit64 E by))"

definition primaries_have_zero :: "PrimariesCIExy \<Rightarrow> bool" where
  "primaries_have_zero xy =
     (fp_eq (xy_x (pr_r xy)) (Fin 0) \<or> fp_eq (xy_y (pr_r xy)) (Fin 0) \<or>
      fp_eq (xy_x (pr_g xy)) (Fin 0) \<or> fp_eq (xy_y (pr_g xy)) (Fin 0) \<or>
      fp_eq (xy_x (pr_b xy)) (Fin 0) \<or> fp_eq (xy_y (pr_b xy)) (Fin 0))"

definition SetPrimaries ::
  "env \<Rightarrow> ColorEncoding \<Rightarrow> PrimariesCIExy \<Rightarrow> (Status \<times> ColorEncoding) option" where
  "SetPrimaries E c xy =
     (if \<not> HasPrimaries c then None
      else if primaries_have_zero xy
      then Some (JXL_FAILURE ''Invalid primaries %f %f %f %f %f %f'', c)
      else if ApproxEq_primaries E xy (64 / 100) (33 / 100) (30 / 100) (60 / 100)
                (15 / 100) (6 / 100)
      then Some (StatusOK, c\<lparr>primaries := Primaries.kSRGB\<rparr>)
      else if ApproxEq_primaries E xy (708 / 1000) (292 / 1000) (170 / 1000) (797 / 1000)
                (131 / 1000) (46 / 1000)
      then Some (StatusOK, c\<lparr>primaries := k2100\<rparr>)
      else if ApproxEq_primaries E xy (680 / 1000) (320 / 1000) (265 / 1000) (690 / 1000)
                (150 / 1000) (60 / 1000)
      then Some (StatusOK, c\<lparr>primaries := kP3\<rparr>)
      else
        let c1 = c\<lparr>primaries := Primaries.kCustom\<rparr> in
        case Customxy_Set E (red_custom c1) (pr_r xy) of (st_r, r) \<Rightarrow>
          let c2 = c1\<lparr>red_custom := r\<rparr> in
          if \<not> IsOK st_r then Some (st_r, c2)
          else
            case Customxy_Set E (green_custom c2) (pr_g xy) of (st_g, g) \<Rightarrow>
              let c3 = c2\<lparr>green_custom := g\<rparr> in
              if \<not> IsOK st_g then Some (st_g, c3)
              else
                case Customxy_Set E (blue_custom c3) (pr_b xy) of (st_b, b) \<Rightarrow>
                  let c4 = c3\<lparr>blue_custom := b\<rparr> in
                  if \<not> IsOK st_b then Some (st_b, c4)
                  else Some (StatusOK, c4))"

definition CreateICC :: "env \<Rightarrow> ColorEncoding \<Rightarrow> Status \<times> ColorEncoding" where
  "CreateICC E c =
     (let c1 = c\<lparr>icc := []\<rparr> in
      case MaybeCreateProfile E c1 of (st, bytes) \<Rightarrow> (st, c1\<lparr>icc := bytes\<rparr>))"

subsection \<open>The external color encoding and the import of its fields\<close>

text \<open>
  Modelled from the spec: \<open>JxlColorEncoding\<close>, the "flat external record carrying
  raw doubles for white point/primaries and an explicit gamma double", and its C
  enumerations are declared in the public headers. The constructors ending in
  \<open>INVALID\<close> stand for an integer that is no value of the enumeration, which the
  switches of the source answer with a failure.
\<close>

datatype JxlColorSpace =
  JXL_COLOR_SPACE_RGB | JXL_COLOR_SPACE_GRAY | JXL_COLOR_SPACE_XYB | JXL_COLOR_SPACE_UNKNOWN

datatype JxlWhitePoint =
  JXL_WHITE_POINT_D65 | JXL_WHITE_POINT_CUSTOM | JXL_WHITE_POINT_E | JXL_WHITE_POINT_DCI
  | JXL_WHITE_POINT_INVALID

datatype JxlPrimaries =
  JXL_PRIMARIES_SRGB | JXL_PRIMARIES_CUSTOM | JXL_PRIMARIES_2100 | JXL_PRIMARIES_P3
  | JXL_PRIMARIES_INVALID

datatype JxlTransferFunction =
  JXL_TRANSFER_FUNCTION_709 | JXL_TRANSFER_FUNCTION_UNKNOWN | JXL_TRANSFER_FUNCTION_LINEAR
  | JXL_TRANSFER_FUNCTION_SRGB | JXL_TRANSFER_FUNCTION_PQ | JXL_TRANSFER_FUNCTION_DCI
  | JXL_TRANSFER_FUNCTION_HLG | JXL_TRANSFER_FUNCTION_GAMMA | JXL_TRANSFER_FUNCTION_INVALID

datatype JxlRenderingIntent =
  JXL_RENDERING_INTENT_PERCEPTUAL | JXL_RENDERING_INTENT_RELATIVE
  | JXL_RENDERING_INTENT_SATURATION | JXL_RENDERING_INTENT_ABSOLUTE
  | JXL_RENDERING_INTENT_INVALID

record JxlColorEncoding =
  ext_color_space :: JxlColorSpace
  ext_white_point :: JxlWhitePoint
  ext_white_point_xy :: "fp \<times> fp"
  ext_primaries :: JxlPrimaries
  ext_primaries_red_xy :: "fp \<times> fp"
  ext_primaries_green_xy :: "fp \<times> fp"
  ext_primaries_blue_xy :: "fp \<times> fp"
  ext_transfer_function :: JxlTransferFunction
  ext_gamma :: fp
  ext_rendering_intent :: JxlRenderingIntent

text \<open>\<open>static_cast<ColorSpace>(external.color_space)\<close>: the same position.\<close>

fun ColorSpace_of_external :: "JxlColorSpace \<Rightarrow> ColorSpace" where
  "ColorSpace_of_external JXL_COLOR_SPACE_RGB = kRGB"
| "ColorSpace_of_external JXL_COLOR_SPACE_GRAY = kGray"
| "ColorSpace_of_external JXL_COLOR_SPACE_XYB = kXYB"
| "ColorSpace_of_external JXL_COLOR_SPACE_UNKNOWN = ColorSpace.kUnknown"

text \<open>
  The four conversions write their output only on success: the second argument is
  the enumerator held before the call, the second result the one held afterwards.
\<close>

fun WhitePointFromExternal :: "JxlWhitePoint \<Rightarrow> WhitePoint \<Rightarrow> Status \<times> WhitePoint" where
  "WhitePointFromExternal JXL_WHITE_POINT_D65 out = (StatusOK, kD65)"
| "WhitePointFromExternal JXL_WHITE_POINT_CUSTOM out = (StatusOK, WhitePoint.kCustom)"
| "WhitePointFromExternal JXL_WHITE_POINT_E out = (StatusOK, kE)"
| "WhitePointFromExternal JXL_WHITE_POINT_DCI out = (StatusOK, WhitePoint.kDCI)"
| "WhitePointFromExternal JXL_WHITE_POINT_INVALID out =
     (JXL_FAILURE ''Invalid WhitePoint enum value %d'', out)"

fun PrimariesFromExternal :: "JxlPrimaries \<Rightarrow> Primaries \<Rightarrow> Status \<times> Primaries" where
  "PrimariesFromExternal JXL_PRIMARIES_SRGB out = (StatusOK, Primaries.kSRGB)"
| "PrimariesFromExternal JXL_PRIMARIES_CUSTOM out = (StatusOK, Primaries.kCustom)"
| "PrimariesFromExternal JXL_PRIMARIES_2100 out = (StatusOK, k2100)"
| "PrimariesFromExternal JXL_PRIMARIES_P3 out = (StatusOK, kP3)"
| "PrimariesFromExternal JXL_PRIMARIES_INVALID out =
     (JXL_FAILURE ''Invalid Primaries enum value'', out)"

fun ConvertExternalToInternalTransferFunction ::
  "JxlTransferFunction \<Rightarrow> TransferFunction \<Rightarrow> Status \<times> TransferFunction" where
  "ConvertExternalToInternalTransferFunction JXL_TRANSFER_FUNCTION_709 out = (StatusOK, k709)"
| "ConvertExternalToInternalTransferFunction JXL_TRANSFER_FUNCTION_UNKNOWN out =
     (StatusOK, TransferFunction.kUnknown)"
| "ConvertExternalToInternalTransferFunction JXL_TRANSFER_FUNCTION_LINEAR out =
     (StatusOK, kLinear)"
| "ConvertExternalToInternalTransferFunction JXL_TRANSFER_FUNCTION_SRGB out =
     (StatusOK, TransferFunction.kSRGB)"
| "ConvertExternalToInternalTransferFunction JXL_TRANSFER_FUNCTION_PQ out = (StatusOK, kPQ)"
| "ConvertExternalToInternalTransferFunction JXL_TRANSFER_FUNCTION_DCI out =
     (StatusOK, TransferFunction.kDCI)"
| "ConvertExternalToInternalTransferFunction JXL_TRANSFER_FUNCTION_HLG out = (StatusOK, kHLG)"
| "ConvertExternalToInternalTransferFunction JXL_TRANSFER_FUNCTION_GAMMA out =
     (JXL_FAILURE ''Gamma should be handled separately'', out)"
| "ConvertExternalToInternalTransferFunction JXL_TRANSFER_FUNCTION_INVALID out =
     (JXL_FAILURE ''Invalid TransferFunction enum value'', out)"

fun RenderingIntentFromExternal ::
  "JxlRenderingIntent \<Rightarrow> RenderingIntent \<Rightarrow> Status \<times> RenderingIntent" where
  "RenderingIntentFromExternal JXL_RENDERING_INTENT_PERCEPTUAL out = (StatusOK, kPerceptual)"
| "RenderingIntentFromExternal JXL_RENDERING_INTENT_RELATIVE out = (StatusOK, kRelative)"
| "RenderingIntentFromExternal JXL_RENDERING_INTENT_SATURATION out = (StatusOK, kSaturation)"
| "RenderingIntentFromExternal JXL_RENDERING_INTENT_ABSOLUTE out = (StatusOK, kAbsolute)"
| "RenderingIntentFromExternal JXL_RENDERING_INTENT_INVALID out =
     (JXL_FAILURE ''Invalid RenderingIntent enum value'', out)"

text \<open>
  \<open>FromExternal\<close> in four steps, in the order of the source: the color space and
  the white point, the primaries, the transfer function (built in a local object
  that is default-constructed, and assigned to \<open>tf\<close> once it is set; the local
  \<open>tf_enum\<close> is read only after a successful conversion), the rendering intent
  and the profile. The status of \<open>CreateICC\<close> is dropped.
\<close>

definition FromExternal_white_point ::
  "env \<Rightarrow> ColorEncoding \<Rightarrow> JxlColorEncoding \<Rightarrow> Status \<times> ColorEncoding" where
  "FromExternal_white_point E c ext =
     (let c0 = SetColorSpace c (ColorSpace_of_external (ext_color_space ext)) in
      case WhitePointFromExternal (ext_white_point ext) (white_point c0) of (st, wp) \<Rightarrow>
        let c1 = c0\<lparr>white_point := wp\<rparr> in
        if \<not> IsOK st then (st, c1)
        else if ext_white_point ext = JXL_WHITE_POINT_CUSTOM
        then SetWhitePoint E c1
               (mk_CIExy (fst (ext_white_point_xy ext)) (snd (ext_white_point_xy ext)))
        else (StatusOK, c1))"

definition FromExternal_primaries ::
  "env \<Rightarrow> ColorEncoding \<Rightarrow> JxlColorEncoding \<Rightarrow> (Status \<times> ColorEncoding) option" where
  "FromExternal_primaries E c ext =
     (if ext_color_space ext = JXL_COLOR_SPACE_RGB \<or>
         ext_color_space ext = JXL_COLOR_SPACE_UNKNOWN
      then
        case PrimariesFromExternal (ext_primaries ext) (primaries c) of (st, p) \<Rightarrow>
          let c1 = c\<lparr>primaries := p\<rparr> in
          if \<not> IsOK st then Some (st, c1)
          else if ext_primaries ext = JXL_PRIMARIES_CUSTOM
          then SetPrimaries E c1
                 \<lparr> pr_r = mk_CIExy (fst (ext_primaries_red_xy ext))
                                   (snd (ext_primaries_red_xy ext)),
                   pr_g = mk_CIExy (fst (ext_primaries_green_xy ext))
                                   (snd (ext_primaries_green_xy ext)),
                   pr_b = mk_CIExy (fst (ext_primaries_blue_xy ext))
                                   (snd (ext_primaries_blue_xy ext)) \<rparr>
          else Some (StatusOK, c1)
      else Some (StatusOK, c))"

text \<open>
  Modelled from the spec: the default constructor of \<open>CustomTransferFunction\<close>
  is \<open>Bundle::Init\<close>, which gives every field its documented default (no gamma,
  transfer function sRGB); \<open>nonserialized_color_space\<close> starts as RGB, the
  documented default of the color space.
\<close>

definition CustomTransferFunction_default :: "env \<Rightarrow> CustomTransferFunction" where
  "CustomTransferFunction_default E =
     \<lparr> nonserialized_color_space = kRGB, have_gamma = False,
       gamma = init_gamma E, transfer_function = TransferFunction.kSRGB \<rparr>"

definition FromExternal_tf ::
  "env \<Rightarrow> ColorEncoding \<Rightarrow> JxlColorEncoding \<Rightarrow> Status \<times> ColorEncoding" where
  "FromExternal_tf E c ext =
     (let t = (CustomTransferFunction_default E)
                \<lparr>nonserialized_color_space := GetColorSpace c\<rparr> in
      if ext_transfer_function ext = JXL_TRANSFER_FUNCTION_GAMMA
      then (case SetGamma E t (ext_gamma ext) of
              (st, t') \<Rightarrow> if \<not> IsOK st then (st, c) else (StatusOK, c\<lparr>tf := t'\<rparr>))
      else
        (case ConvertExternalToInternalTransferFunction (ext_transfer_function ext)
                 TransferFunction.kSRGB of
           (st, tf_enum) \<Rightarrow>
             if \<not> IsOK st then (st, c)
             else (StatusOK, c\<lparr>tf := SetTransferFunction t tf_enum\<rparr>)))"

definition FromExternal_rendering_intent ::
  "env \<Rightarrow> ColorEncoding \<Rightarrow> JxlColorEncoding \<Rightarrow> Status \<times> ColorEncoding" where
  "FromExternal_rendering_intent E c ext =
     (case RenderingIntentFromExternal (ext_rendering_intent ext) (rendering_intent c) of
        (st, ri) \<Rightarrow>
          let c1 = c\<lparr>rendering_intent := ri\<rparr> in
          if \<not> IsOK st then (st, c1)
          else (StatusOK, snd (CreateICC E c1)))"

definition FromExternal ::
  "env \<Rightarrow> ColorEncoding \<Rightarrow> JxlColorEncoding \<Rightarrow> (Status \<times> ColorEncoding) option" where
  "FromExternal E c ext =
     (case FromExternal_white_point E c ext of (st1, c1) \<Rightarrow>
        if \<not> IsOK st1 then Some (st1, c1)
        else
          case FromExternal_primaries E c1 ext of
            None \<Rightarrow> None
          | Some (st2, c2) \<Rightarrow>
              if \<not> IsOK st2 then Some (st2, c2)
              else
                case FromExternal_tf E c2 ext of (st3, c3) \<Rightarrow>
                  if \<not> IsOK st3 then Some (st3, c3)
                  else Some (FromExternal_rendering_intent E c3 ext))"

text \<open>
  The color management interface: \<open>set_fields_from_icc\<close> answers success or
  failure and, on success, the external encoding and the CMYK flag.
\<close>

record JxlCmsInterface =
  set_fields_from_icc :: "8 word list \<Rightarrow> (JxlColorEncoding \<times> bool) option"

text \<open>
  \<open>SetFieldsFromICC\<close>. The buffer that \<open>std::move\<close> has emptied is the empty
  list; the original bytes come back only after \<open>FromExternal\<close> has succeeded.
\<close>

definition SetFieldsFromICC ::
  "env \<Rightarrow> JxlCmsInterface \<Rightarrow> ColorEncoding \<Rightarrow> (Status \<times> ColorEncoding) option" where
  "SetFieldsFromICC E cms c =
     (let c0 = SetColorSpace c ColorSpace.kUnknown;
          c1 = c0\<lparr>tf := SetTransferFunction (tf c0) TransferFunction.kUnknown\<rparr> in
      if icc c1 = [] then Some (JXL_FAILURE ''Empty ICC profile'', c1)
      else
        case set_fields_from_icc cms (icc c1) of
          None \<Rightarrow> Some (JXL_FAILURE ''set_fields_from_icc'', c1)
        | Some (external, is_cmyk) \<Rightarrow>
            if is_cmyk then Some (StatusOK, c1\<lparr>cmyk := True\<rparr>)
            else
              let saved = icc c1 in
              case FromExternal E (c1\<lparr>icc := []\<rparr>) external of
                None \<Rightarrow> None
              | Some (st, c2) \<Rightarrow>
                  if \<not> IsOK st then Some (st, c2)
                  else Some (StatusOK, c2\<lparr>icc := saved\<rparr>))"

subsection \<open>Description\<close>

text \<open>
  The string is built left to right as in the source. The assertions of
  \<open>GetPrimaries\<close>, \<open>GetGamma\<close> and \<open>GetTransferFunction\<close> are the
  \<open>None\<close> results.
\<close>

definition Description_white_point :: "env \<Rightarrow> ColorEncoding \<Rightarrow> string" where
  "Description_white_point E c =
     (if white_point c = WhitePoint.kCustom
      then (let wp = GetWhitePoint E c in
            ToString_double E (xy_x wp) @ '';'' @ ToString_double E (xy_y wp))
      else ToString_WhitePoint (white_point c))"

definition Description_primaries :: "env \<Rightarrow> ColorEncoding \<Rightarrow> string option" where
  "Description_primaries E c =
     (if primaries c = Primaries.kCustom
      then (case GetPrimaries E c of
              None \<Rightarrow> None
            | Some pr \<Rightarrow>
                Some (ToString_double E (xy_x (pr_r pr)) @ '';'' @
                      ToString_double E (xy_y (pr_r pr)) @ '';'' @
                      ToString_double E (xy_x (pr_g pr)) @ '';'' @
                      ToString_double E (xy_y (pr_g pr)) @ '';'' @
                      ToString_double E (xy_x (pr_b pr)) @ '';'' @
                      ToString_double E (xy_y (pr_b pr))))
      else Some (ToString_Primaries (primaries c)))"

definition Description_tf :: "env \<Rightarrow> ColorEncoding \<Rightarrow> string option" where
  "Description_tf E c =
     (if IsGamma (tf c)
      then map_option (\<lambda>g. ''g'' @ ToString_double E g) (GetGamma E (tf c))
      else map_option ToString_TransferFunction (GetTransferFunction (tf c)))"

definition Description :: "env \<Rightarrow> ColorEncoding \<Rightarrow> string option" where
  "Description E c =
     (let d = ToString_ColorSpace (GetColorSpace c);
          explicit_wp_tf = (color_space c \<noteq> kXYB);
          d1 = (if explicit_wp_tf then d @ ''_'' @ Description_white_point E c else d)
      in
      case (if HasPrimaries c
            then map_option (\<lambda>p. d1 @ ''_'' @ p) (Description_primaries E c)
            else Some d1) of
        None \<Rightarrow> None
      | Some d2 \<Rightarrow>
          let d3 = d2 @ ''_'' @ ToString_RenderingIntent (rendering_intent c) in
          if explicit_wp_tf
          then map_option (\<lambda>t. d3 @ ''_'' @ t) (Description_tf E c)
          else Some d3)"

subsection \<open>The field visitor\<close>

text \<open>
  Modelled from the spec: the visitor (fields.h) is an external collaborator that
  "exposes typed primitives: fixed-width int, tiered unsigned int, boolean,
  enum-with-default, nested record, all-default fast path", with one read/write mode
  flag. A visitor with state \<open>'v\<close> is the record of its primitives. Each takes the
  default, the current value of the field and the visitor state, and answers a status,
  the value of the field afterwards and the visitor state afterwards.
  \<open>Conditional(c)\<close> is \<open>c\<close> ("conditionals driven only by fields already
  settled earlier in the same pass") and \<open>VisitNested\<close> runs the \<open>VisitFields\<close>
  of the nested record.
\<close>

record 'v Visitor =
  v_IsReading :: bool
  v_AllDefault :: "ColorEncoding \<Rightarrow> 'v \<Rightarrow> bool \<times> bool \<times> 'v"
  v_SetDefault :: "ColorEncoding \<Rightarrow> 'v \<Rightarrow> ColorEncoding \<times> 'v"
  v_Bool :: "bool \<Rightarrow> bool \<Rightarrow> 'v \<Rightarrow> Status \<times> bool \<times> 'v"
  v_U32 :: "'v U32_method"
  v_Bits :: "nat \<Rightarrow> 32 word \<Rightarrow> 32 word \<Rightarrow> 'v \<Rightarrow> Status \<times> 32 word \<times> 'v"
  v_Enum_ColorSpace :: "ColorSpace \<Rightarrow> ColorSpace \<Rightarrow> 'v \<Rightarrow> Status \<times> ColorSpace \<times> 'v"
  v_Enum_WhitePoint :: "WhitePoint \<Rightarrow> WhitePoint \<Rightarrow> 'v \<Rightarrow> Status \<times> WhitePoint \<times> 'v"
  v_Enum_Primaries :: "Primaries \<Rightarrow> Primaries \<Rightarrow> 'v \<Rightarrow> Status \<times> Primaries \<times> 'v"
  v_Enum_TransferFunction ::
    "TransferFunction \<Rightarrow> TransferFunction \<Rightarrow> 'v \<Rightarrow> Status \<times> TransferFunction \<times> 'v"
  v_Enum_RenderingIntent ::
    "RenderingIntent \<Rightarrow> RenderingIntent \<Rightarrow> 'v \<Rightarrow> Status \<times> RenderingIntent \<times> 'v"

definition Conditional :: "bool \<Rightarrow> bool" where
  "Conditional condition = condition"

text \<open>\<open>CustomTransferFunction::VisitFields\<close>; \<open>None\<close> is the assertion of \<open>SetImplicit\<close>.\<close>

definition CustomTransferFunction_VisitFields_gamma ::
  "env \<Rightarrow> 'v Visitor \<Rightarrow> CustomTransferFunction \<Rightarrow> 'v \<Rightarrow> Status \<times> CustomTransferFunction \<times> 'v" where
  "CustomTransferFunction_VisitFields_gamma E V t v =
     (if Conditional (have_gamma t)
      then
        case v_Bits V 24 (of_nat (kGammaMul E)) (gamma t) v of (st, g, v1) \<Rightarrow>
          let t1 = t\<lparr>gamma := g\<rparr> in
          if \<not> IsOK st then (st, t1, v1)
          else if unat (gamma t1) > kGammaMul E \<or>
                  unat (gamma t1) * kMaxGamma E < kGammaMul E
          then (JXL_FAILURE ''Invalid gamma %u'', t1, v1)
          else (StatusOK, t1, v1)
      else (StatusOK, t, v))"

definition CustomTransferFunction_VisitFields ::
  "env \<Rightarrow> 'v Visitor \<Rightarrow> CustomTransferFunction \<Rightarrow> 'v \<Rightarrow>
     (Status \<times> CustomTransferFunction \<times> 'v) option" where
  "CustomTransferFunction_VisitFields E V t v =
     (case SetImplicit E t of
        None \<Rightarrow> None
      | Some (implicit, t0) \<Rightarrow>
          if Conditional (\<not> implicit)
          then
            case v_Bool V False (have_gamma t0) v of (st1, hg, v1) \<Rightarrow>
              let t1 = t0\<lparr>have_gamma := hg\<rparr> in
              if \<not> IsOK st1 then Some (st1, t1, v1)
              else
                case CustomTransferFunction_VisitFields_gamma E V t1 v1 of (st2, t2, v2) \<Rightarrow>
                  if \<not> IsOK st2 then Some (st2, t2, v2)
                  else if Conditional (\<not> have_gamma t2)
                  then
                    case v_Enum_TransferFunction V TransferFunction.kSRGB
                           (transfer_function t2) v2 of
                      (st3, f, v3) \<Rightarrow>
                        let t3 = t2\<lparr>transfer_function := f\<rparr> in
                        if \<not> IsOK st3 then Some (st3, t3, v3)
                        else Some (StatusOK, t3, v3)
                  else Some (StatusOK, t2, v2)
          else Some (StatusOK, t0, v))"

text \<open>
  \<open>ColorEncoding::VisitFields\<close> in the order of the source: the white point, the
  primaries (both inside the branch for \<open>!WantICC()\<close>), then the whole branch with
  the transfer function, the rendering intent, the check that all fields are known
  and \<open>CreateICC\<close>, then the two leading fields, and the pass with the final test
  of the profile.
\<close>

definition VisitFields_white_point ::
  "'v Visitor \<Rightarrow> ColorEncoding \<Rightarrow> 'v \<Rightarrow> Status \<times> ColorEncoding \<times> 'v" where
  "VisitFields_white_point V c v =
     (if Conditional (\<not> ImplicitWhitePoint c)
      then
        case v_Enum_WhitePoint V kD65 (white_point c) v of (st1, wp, v1) \<Rightarrow>
          let c1 = c\<lparr>white_point := wp\<rparr> in
          if \<not> IsOK st1 then (st1, c1, v1)
          else if Conditional (white_point c1 = WhitePoint.kCustom)
          then
            case Customxy_VisitFields (v_U32 V) (white_custom c1) v1 of (st2, w, v2) \<Rightarrow>
              (st2, c1\<lparr>white_custom := w\<rparr>, v2)
          else (StatusOK, c1, v1)
      else (StatusOK, c, v))"

definition VisitFields_primaries ::
  "'v Visitor \<Rightarrow> ColorEncoding \<Rightarrow> 'v \<Rightarrow> Status \<times> ColorEncoding \<times> 'v" where
  "VisitFields_primaries V c v =
     (if Conditional (HasPrimaries c)
      then
        case v_Enum_Primaries V Primaries.kSRGB (primaries c) v of (st1, p, v1) \<Rightarrow>
          let c1 = c\<lparr>primaries := p\<rparr> in
          if \<not> IsOK st1 then (st1, c1, v1)
          else if Conditional (primaries c1 = Primaries.kCustom)
          then
            case Customxy_VisitFields (v_U32 V) (red_custom c1) v1 of (st2, r, v2) \<Rightarrow>
              let c2 = c1\<lparr>red_custom := r\<rparr> in
              if \<not> IsOK st2 then (st2, c2, v2)
              else
                case Customxy_VisitFields (v_U32 V) (green_custom c2) v2 of (st3, g, v3) \<Rightarrow>
                  let c3 = c2\<lparr>green_custom := g\<rparr> in
                  if \<not> IsOK st3 then (st3, c3, v3)
                  else
                    case Customxy_VisitFields (v_U32 V) (blue_custom c3) v3 of
                      (st4, b, v4) \<Rightarrow> (st4, c3\<lparr>blue_custom := b\<rparr>, v4)
          else (StatusOK, c1, v1)
      else (StatusOK, c, v))"

text \<open>
  The descriptive fields: white point, primaries, transfer function and rendering
  intent, each visited only when the one before succeeded.
\<close>

definition VisitFields_descriptive ::
  "env \<Rightarrow> 'v Visitor \<Rightarrow> ColorEncoding \<Rightarrow> 'v \<Rightarrow> (Status \<times> ColorEncoding \<times> 'v) option" where
  "VisitFields_descriptive E V c v =
     (case VisitFields_white_point V c v of (st1, c1, v1) \<Rightarrow>
        if \<not> IsOK st1 then Some (st1, c1, v1)
        else
          case VisitFields_primaries V c1 v1 of (st2, c2, v2) \<Rightarrow>
            if \<not> IsOK st2 then Some (st2, c2, v2)
            else
              case CustomTransferFunction_VisitFields E V (tf c2) v2 of
                None \<Rightarrow> None
              | Some (st3, t, v3) \<Rightarrow>
                  let c3 = c2\<lparr>tf := t\<rparr> in
                  if \<not> IsOK st3 then Some (st3, c3, v3)
                  else
                    case v_Enum_RenderingIntent V kRelative (rendering_intent c3) v3 of
                      (st4, ri, v4) \<Rightarrow> Some (st4, c3\<lparr>rendering_intent := ri\<rparr>, v4))"

text \<open>What follows the descriptive fields in the branch: the check and \<open>CreateICC\<close>.\<close>

definition VisitFields_check_and_create ::
  "env \<Rightarrow> ColorEncoding \<Rightarrow> Status \<times> ColorEncoding" where
  "VisitFields_check_and_create E c =
     (if color_space c = ColorSpace.kUnknown \<or> IsUnknown (tf c)
      then (JXL_FAILURE ''No ICC but cs %u and tf %u%s'', c)
      else CreateICC E c)"

text \<open>The end of the pass: the profile must be there unless it is still to be read.\<close>

definition VisitFields_final ::
  "'v Visitor \<Rightarrow> ColorEncoding \<Rightarrow> Status" where
  "VisitFields_final V c =
     (if WantICC c \<and> v_IsReading V then StatusOK
      else if ICC c = [] then JXL_FAILURE ''Empty ICC''
      else StatusOK)"

definition VisitFields_no_icc_branch ::
  "env \<Rightarrow> 'v Visitor \<Rightarrow> ColorEncoding \<Rightarrow> 'v \<Rightarrow> (Status \<times> ColorEncoding \<times> 'v) option" where
  "VisitFields_no_icc_branch E V c v =
     (if Conditional (\<not> WantICC c)
      then
        case VisitFields_descriptive E V c v of
          None \<Rightarrow> None
        | Some (st1, c1, v1) \<Rightarrow>
            if \<not> IsOK st1 then Some (st1, c1, v1)
            else
              case VisitFields_check_and_create E c1 of (st2, c2) \<Rightarrow> Some (st2, c2, v1)
      else Some (StatusOK, c, v))"

text \<open>The two leading fields: the \<open>want_icc\<close> flag and the color space.\<close>

definition VisitFields_leading ::
  "'v Visitor \<Rightarrow> ColorEncoding \<Rightarrow> 'v \<Rightarrow> Status \<times> ColorEncoding \<times> 'v" where
  "VisitFields_leading V c v =
     (case v_Bool V False (want_icc c) v of (st1, w, v1) \<Rightarrow>
        let c1 = c\<lparr>want_icc := w\<rparr> in
        if \<not> IsOK st1 then (st1, c1, v1)
        else
          case v_Enum_ColorSpace V kRGB (color_space c1) v1 of (st2, cs, v2) \<Rightarrow>
            (st2, c1\<lparr>color_space := cs\<rparr>, v2))"

definition ColorEncoding_VisitFields ::
  "env \<Rightarrow> 'v Visitor \<Rightarrow> ColorEncoding \<Rightarrow> 'v \<Rightarrow> (Status \<times> ColorEncoding \<times> 'v) option" where
  "ColorEncoding_VisitFields E V c v =
     (case v_AllDefault V c v of (is_default, flag, v0) \<Rightarrow>
        let c0 = c\<lparr>all_default := flag\<rparr> in
        if is_default
        then (case v_SetDefault V c0 v0 of (c', v') \<Rightarrow> Some (StatusOK, c', v'))
        else
          case VisitFields_leading V c0 v0 of (st1, c2, v2) \<Rightarrow>
            if \<not> IsOK st1 then Some (st1, c2, v2)
            else
              case VisitFields_no_icc_branch E V c2 v2 of
                None \<Rightarrow> None
              | Some (st3, c3, v3) \<Rightarrow>
                  if \<not> IsOK st3 then Some (st3, c3, v3)
                  else Some (VisitFields_final V c3, c3, v3))"

subsection \<open>Default construction\<close>

text \<open>
  Modelled from the spec: \<open>Bundle::Init\<close>, the body of the three constructors, is
  part of the visitor framework. It runs \<open>VisitFields\<close> with a visitor that gives
  every visited field the default passed at its call ("default-constructed with
  all-default values"), sets the \<open>all_default\<close> flag without taking the fast path,
  and ends the process when the pass fails (the result \<open>None\<close>).
\<close>

definition InitVisitor :: "unit Visitor" where
  "InitVisitor =
     \<lparr> v_IsReading = False,
       v_AllDefault = (\<lambda>c v. (False, True, v)),
       v_SetDefault = (\<lambda>c v. (c, v)),
       v_Bool = (\<lambda>default_value value v. (StatusOK, default_value, v)),
       v_U32 = (\<lambda>enc default_value value v. (StatusOK, default_value, v)),
       v_Bits = (\<lambda>bits default_value value v. (StatusOK, default_value, v)),
       v_Enum_ColorSpace = (\<lambda>default_value value v. (StatusOK, default_value, v)),
       v_Enum_WhitePoint = (\<lambda>default_value value v. (StatusOK, default_value, v)),
       v_Enum_Primaries = (\<lambda>default_value value v. (StatusOK, default_value, v)),
       v_Enum_TransferFunction = (\<lambda>default_value value v. (StatusOK, default_value, v)),
       v_Enum_RenderingIntent = (\<lambda>default_value value v. (StatusOK, default_value, v)) \<rparr>"

definition Customxy_ctor :: "Customxy \<Rightarrow> Customxy option" where
  "Customxy_ctor raw =
     (case Customxy_VisitFields (v_U32 InitVisitor) raw () of
        (st, c, v) \<Rightarrow> if IsOK st then Some c else None)"

text \<open>
  The constructor of \<open>ColorEncoding\<close>: the members are constructed first (the
  four \<open>Customxy\<close> and \<open>tf\<close>), then \<open>Bundle::Init(this)\<close> runs. The argument
  is the object before construction; of it only the plain fields of \<open>storage_\<close>
  remain when the body starts.
\<close>

definition ColorEncoding_ctor :: "env \<Rightarrow> ColorEncoding \<Rightarrow> ColorEncoding option" where
  "ColorEncoding_ctor E raw =
     (case (Customxy_ctor (white_custom raw), Customxy_ctor (red_custom raw),
            Customxy_ctor (green_custom raw), Customxy_ctor (blue_custom raw)) of
        (Some w, Some r, Some g, Some b) \<Rightarrow>
          (case ColorEncoding_VisitFields E InitVisitor
                  (raw\<lparr>white_custom := w, red_custom := r, green_custom := g,
                       blue_custom := b, tf := CustomTransferFunction_default E\<rparr>) () of
             Some (st, c, v) \<Rightarrow> if IsOK st then Some c else None
           | None \<Rightarrow> None)
      | _ \<Rightarrow> None)"

subsection \<open>Chromatic adaptation\<close>

definition kBradford :: "env \<Rightarrow> mat3" where
  "kBradford E =
     ((lit32 E (8951 / 10000), lit32 E (2664 / 10000), lit32 E (- 1614 / 10000)),
      (lit32 E (- 7502 / 10000), lit32 E (17135 / 10000), lit32 E (367 / 10000)),
      (lit32 E (389 / 10000), lit32 E (- 685 / 10000), lit32 E (10296 / 10000)))"

definition kBradfordInv :: "env \<Rightarrow> mat3" where
  "kBradfordInv E =
     ((lit32 E (9869929 / 10 ^ 7), lit32 E (- 1470543 / 10 ^ 7), lit32 E (1599627 / 10 ^ 7)),
      (lit32 E (4323053 / 10 ^ 7), lit32 E (5183603 / 10 ^ 7), lit32 E (492912 / 10 ^ 7)),
      (lit32 E (- 85287 / 10 ^ 7), lit32 E (400428 / 10 ^ 7), lit32 E (9684867 / 10 ^ 7)))"

text \<open>The range test on the white point, the first statement of the function.\<close>

definition white_point_out_of_range :: "fp \<Rightarrow> fp \<Rightarrow> bool" where
  "white_point_out_of_range wx wy =
     (fp_lt wx (Fin 0) \<or> fp_gt wx (Fin 1) \<or> fp_le wy (Fin 0) \<or> fp_gt wy (Fin 1))"

text \<open>\<open>w[0]\<close> and \<open>w[2]\<close>, the two quotients, in \<open>float\<close> arithmetic.\<close>

definition white_w0 :: "env \<Rightarrow> fp \<Rightarrow> fp \<Rightarrow> fp" where
  "white_w0 E wx wy = fp_div (rnd32 E) wx wy"

definition white_w2 :: "env \<Rightarrow> fp \<Rightarrow> fp \<Rightarrow> fp" where
  "white_w2 E wx wy =
     fp_div (rnd32 E) (fp_sub (rnd32 E) (fp_sub (rnd32 E) (Fin 1) wx) wy) wy"

definition white_lms :: "env \<Rightarrow> fp \<Rightarrow> fp \<Rightarrow> vec3" where
  "white_lms E wx wy =
     Mul3x3Vector E (kBradford E) (white_w0 E wx wy, Fin 1, white_w2 E wx wy)"

definition white_lms50 :: "env \<Rightarrow> vec3" where
  "white_lms50 E =
     Mul3x3Vector E (kBradford E) (lit32 E (96422 / 100000), Fin 1, lit32 E (82521 / 100000))"

text \<open>The diagonal of \<open>a\<close>: the three ratios \<open>lms50[i] / lms[i]\<close>.\<close>

definition adapt_ratios :: "env \<Rightarrow> fp \<Rightarrow> fp \<Rightarrow> vec3" where
  "adapt_ratios E wx wy =
     (case white_lms E wx wy of (l0, l1, l2) \<Rightarrow>
      case white_lms50 E of (m0, m1, m2) \<Rightarrow>
        (fp_div (rnd32 E) m0 l0, fp_div (rnd32 E) m1 l1, fp_div (rnd32 E) m2 l2))"

definition diag3 :: "vec3 \<Rightarrow> mat3" where
  "diag3 d = (case d of (a0, a4, a8) \<Rightarrow>
     ((a0, Fin 0, Fin 0), (Fin 0, a4, Fin 0), (Fin 0, Fin 0, a8)))"

text \<open>
  \<open>AdaptToXYZD50(wx, wy, matrix)\<close>: the third argument is the content of
  \<open>matrix\<close> before the call, the second result its content afterwards.
\<close>

definition AdaptToXYZD50 :: "env \<Rightarrow> fp \<Rightarrow> fp \<Rightarrow> mat3 \<Rightarrow> Status \<times> mat3" where
  "AdaptToXYZD50 E wx wy matrix =
     (if white_point_out_of_range wx wy
      then (JXL_FAILURE ''Invalid white point'', matrix)
      else if \<not> (isfinite (white_w0 E wx wy) \<and> isfinite (white_w2 E wx wy))
      then (JXL_FAILURE ''std::isfinite(w[0]) && std::isfinite(w[2])'', matrix)
      else
        case white_lms E wx wy of (l0, l1, l2) \<Rightarrow>
          if fp_eq l0 (Fin 0) \<or> fp_eq l1 (Fin 0) \<or> fp_eq l2 (Fin 0)
          then (JXL_FAILURE ''Invalid white point'', matrix)
          else
            case adapt_ratios E wx wy of (a0, a4, a8) \<Rightarrow>
              if \<not> isfinite a0 \<or> \<not> isfinite a4 \<or> \<not> isfinite a8
              then (JXL_FAILURE ''Invalid white point'', matrix)
              else
                (StatusOK,
                 Mul3x3Matrix E (kBradfordInv E)
                   (Mul3x3Matrix E (diag3 (a0, a4, a8)) (kBradford E))))"

subsection \<open>Example objects\<close>

text \<open>
  An object before construction, with arbitrary content, and the object that the
  constructor makes of it in the exact environment. \<open>Init_fields\<close> is what the
  pass of \<open>Bundle::Init\<close> has written when it reaches \<open>CreateICC\<close>.
\<close>

definition raw_example :: ColorEncoding where
  "raw_example = \<lparr> all_default = False, want_icc = True, color_space = kXYB,
     white_point = kE, primaries = kP3, rendering_intent = kAbsolute,
     have_fields = True, cmyk = False, icc = [],
     white_custom = \<lparr>storage_x = 7, storage_y = 9\<rparr>,
     red_custom = \<lparr>storage_x = 7, storage_y = 9\<rparr>,
     green_custom = \<lparr>storage_x = 7, storage_y = 9\<rparr>,
     blue_custom = \<lparr>storage_x = 7, storage_y = 9\<rparr>,
     tf = \<lparr> nonserialized_color_space = kXYB, have_gamma = True, gamma = 5,
            transfer_function = kPQ \<rparr> \<rparr>"

definition Init_fields :: "env \<Rightarrow> ColorEncoding \<Rightarrow> ColorEncoding" where
  "Init_fields E raw =
     raw\<lparr>white_custom := \<lparr>storage_x = 0, storage_y = 0\<rparr>,
         red_custom := \<lparr>storage_x = 0, storage_y = 0\<rparr>,
         green_custom := \<lparr>storage_x = 0, storage_y = 0\<rparr>,
         blue_custom := \<lparr>storage_x = 0, storage_y = 0\<rparr>,
         tf := CustomTransferFunction_default E, all_default := True,
         want_icc := False, color_space := kRGB, white_point := kD65,
         primaries := Primaries.kSRGB, rendering_intent := kRelative\<rparr>"

definition default_example :: ColorEncoding where
  "default_example = \<lparr> all_default = True, want_icc = False, color_space = kRGB,
     white_point = kD65, primaries = Primaries.kSRGB, rendering_intent = kRelative,
     have_fields = True, cmyk = False, icc = [1],
     white_custom = \<lparr>storage_x = 0, storage_y = 0\<rparr>,
     red_custom = \<lparr>storage_x = 0, storage_y = 0\<rparr>,
     green_custom = \<lparr>storage_x = 0, storage_y = 0\<rparr>,
     blue_custom = \<lparr>storage_x = 0, storage_y = 0\<rparr>,
     tf = \<lparr> nonserialized_color_space = kRGB, have_gamma = False, gamma = 0,
            transfer_function = TransferFunction.kSRGB \<rparr> \<rparr>"

subsection \<open>Definitions for the statements about Customxy\<close>

text \<open>
  A visitor that records, in order, every \<open>U32\<close> call of a pass: the
  distributions and the value it was given. It shows what a writer receives.
\<close>

definition RecordingVisitor_U32 :: "(U32Enc \<times> 32 word) list U32_method" where
  "RecordingVisitor_U32 enc default_value value seen = (StatusOK, value, seen @ [(enc, value)])"

text \<open>
  The bit widths of the four tiers in the words of the spec: "19 bits for values
  below 2^19, else 20, else 21, else a full-width fallback".
\<close>

definition Customxy_tier_bits_spec :: "nat \<Rightarrow> nat" where
  "Customxy_tier_bits_spec u =
     (if u < 2 ^ 19 then 19 else if u < 2 ^ 20 then 20 else if u < 2 ^ 21 then 21 else 32)"

text \<open>
  The integer that \<open>F64ToCustomxyI32\<close> stores for a coordinate that passes its
  range test.
\<close>

definition stored_i32 :: "env \<Rightarrow> fp \<Rightarrow> 32 word" where
  "stored_i32 E f =
     float_to_int32 E (roundf (fp_to_float (rnd32 E) (fp_mul (rnd64 E) f (Fin 1000000))))"

text \<open>
  An environment rounds accurately when zero is kept and, for magnitudes between
  \<open>2^-64\<close> and \<open>2^64\<close>, a rounded \<open>double\<close> is finite and within the relative
  error \<open>2^-53\<close> of the exact value, a rounded \<open>float\<close> within \<open>2^-24\<close>. The
  IEEE roundings to nearest do, and so does the exact environment.
\<close>

definition accurate :: "env \<Rightarrow> bool" where
  "accurate E \<longleftrightarrow>
     rnd64 E 0 = Fin 0 \<and> rnd32 E 0 = Fin 0 \<and>
     (\<forall>r. 1 / 2 ^ 64 \<le> \<bar>r\<bar> \<and> \<bar>r\<bar> \<le> 2 ^ 64 \<longrightarrow>
        (\<exists>q. rnd64 E r = Fin q \<and> \<bar>q - r\<bar> \<le> \<bar>r\<bar> / 2 ^ 53) \<and>
        (\<exists>q. rnd32 E r = Fin q \<and> \<bar>q - r\<bar> \<le> \<bar>r\<bar> / 2 ^ 24))"

text \<open>
  Rounding to the nearest integer, ties to the even one: the IEEE default.
\<close>

definition round_half_even :: "real \<Rightarrow> int" where
  "round_half_even r =
     (if r - of_int \<lfloor>r\<rfloor> < 1 / 2 then \<lfloor>r\<rfloor>
      else if 1 / 2 < r - of_int \<lfloor>r\<rfloor> then \<lfloor>r\<rfloor> + 1
      else if even \<lfloor>r\<rfloor> then \<lfloor>r\<rfloor> else \<lfloor>r\<rfloor> + 1)"

text \<open>
  The \<open>float\<close> nearest to a real number of magnitude between \<open>2^20\<close> and \<open>2^21\<close>:
  a \<open>float\<close> has 24 significant bits, so in this range the \<open>float\<close>s are the
  multiples of \<open>1/8\<close>. Outside of this range the function is not the rounding of the
  machine.
\<close>

definition float_eighths :: "real \<Rightarrow> fp" where
  "float_eighths r = Fin (of_int (round_half_even (r * 8)) / 8)"

text \<open>
  An environment for coordinates whose product with \<open>10^6\<close> is a \<open>double\<close> of
  magnitude between \<open>2^20\<close> and \<open>2^21\<close>: the rounding to \<open>double\<close> is exact, the
  rounding to \<open>float\<close> is the one of the machine in this range.
\<close>

definition binade_env :: env where
  "binade_env = exact_env\<lparr>rnd32 := float_eighths\<rparr>"


subsection \<open>Definitions for the statements about the setters\<close>

text \<open>
  What \<open>SetGamma\<close> leaves in the transfer function when its argument is a NaN:
  the conversion of the rounded product to \<open>uint32_t\<close> is undefined then.
\<close>

definition nan_gamma_result :: "env \<Rightarrow> CustomTransferFunction \<Rightarrow> CustomTransferFunction" where
  "nan_gamma_result E t =
     (if ApproxEq E NaN (Fin 1) then t\<lparr>have_gamma := False, transfer_function := kLinear\<rparr>
      else if ApproxEq E NaN (fp_div (rnd64 E) (Fin 1) (lit64 E (26 / 10)))
      then t\<lparr>have_gamma := False, transfer_function := TransferFunction.kDCI\<rparr>
      else t\<lparr>have_gamma := True, gamma := undef_u32 E NaN,
             transfer_function := TransferFunction.kUnknown\<rparr>)"

text \<open>
  A primaries triplet whose red \<open>y\<close> is 5: no coordinate zero, far from every
  preset, and the red \<open>y\<close> outside \<open>[-4, 4]\<close>. All six coordinates are values
  of the \<open>double\<close> format.
\<close>

definition out_of_bounds_primaries :: PrimariesCIExy where
  "out_of_bounds_primaries =
     \<lparr> pr_r = mk_CIExy (Fin (1 / 2)) (Fin 5),
       pr_g = mk_CIExy (Fin (1 / 4)) (Fin (1 / 2)),
       pr_b = mk_CIExy (Fin (1 / 8)) (Fin (1 / 16)) \<rparr>"

subsection \<open>Definitions for the statements about the visitor, the profile and the matrix\<close>

text \<open>
  A visitor that leaves every field as it is and always succeeds, as a writer
  without a size limit does, and an object whose color space is Unknown.
\<close>

definition WritingVisitor :: "unit Visitor" where
  "WritingVisitor =
     \<lparr> v_IsReading = False,
       v_AllDefault = (\<lambda>c v. (False, False, v)),
       v_SetDefault = (\<lambda>c v. (c, v)),
       v_Bool = (\<lambda>default_value value v. (StatusOK, value, v)),
       v_U32 = (\<lambda>enc default_value value v. (StatusOK, value, v)),
       v_Bits = (\<lambda>bits default_value value v. (StatusOK, value, v)),
       v_Enum_ColorSpace = (\<lambda>default_value value v. (StatusOK, value, v)),
       v_Enum_WhitePoint = (\<lambda>default_value value v. (StatusOK, value, v)),
       v_Enum_Primaries = (\<lambda>default_value value v. (StatusOK, value, v)),
       v_Enum_TransferFunction = (\<lambda>default_value value v. (StatusOK, value, v)),
       v_Enum_RenderingIntent = (\<lambda>default_value value v. (StatusOK, value, v)) \<rparr>"

definition unknown_example :: ColorEncoding where
  "unknown_example = default_example\<lparr>all_default := False, color_space := ColorSpace.kUnknown\<rparr>"

text \<open>
  The state in which \<open>SetFieldsFromICC\<close> puts the object before it does anything
  else: color space Unknown (also as the color space the transfer function knows),
  transfer function the named curve Unknown.
\<close>

definition poisoned :: "ColorEncoding \<Rightarrow> ColorEncoding" where
  "poisoned c =
     c\<lparr>color_space := ColorSpace.kUnknown,
       tf := (tf c)\<lparr>nonserialized_color_space := ColorSpace.kUnknown, have_gamma := False,
                    transfer_function := TransferFunction.kUnknown\<rparr>\<rparr>"

text \<open>
  Two external encodings, sRGB and the same with a custom white point whose
  \<open>x\<close> is zero, and two color management interfaces: one that parses every
  profile to a given encoding (not CMYK), one that fails on every profile.
\<close>

definition srgb_external :: JxlColorEncoding where
  "srgb_external =
     \<lparr> ext_color_space = JXL_COLOR_SPACE_RGB,
       ext_white_point = JXL_WHITE_POINT_D65,
       ext_white_point_xy = (Fin 0, Fin 0),
       ext_primaries = JXL_PRIMARIES_SRGB,
       ext_primaries_red_xy = (Fin 0, Fin 0),
       ext_primaries_green_xy = (Fin 0, Fin 0),
       ext_primaries_blue_xy = (Fin 0, Fin 0),
       ext_transfer_function = JXL_TRANSFER_FUNCTION_SRGB,
       ext_gamma = Fin 0,
       ext_rendering_intent = JXL_RENDERING_INTENT_RELATIVE \<rparr>"

definition zero_white_external :: JxlColorEncoding where
  "zero_white_external =
     srgb_external\<lparr>ext_white_point := JXL_WHITE_POINT_CUSTOM,
                   ext_white_point_xy := (Fin 0, Fin (1 / 2))\<rparr>"

definition cms_returning :: "JxlColorEncoding \<Rightarrow> JxlCmsInterface" where
  "cms_returning ext = \<lparr> set_fields_from_icc = (\<lambda>bytes. Some (ext, False)) \<rparr>"

definition cms_failing :: JxlCmsInterface where
  "cms_failing = \<lparr> set_fields_from_icc = (\<lambda>bytes. None) \<rparr>"

text \<open>The white point D65 in the exact environment.\<close>

definition D65_x :: fp where "D65_x = Fin (3127 / 10000)"
definition D65_y :: fp where "D65_y = Fin (3290 / 10000)"

text \<open>
  The matrix that \<open>AdaptToXYZD50\<close> computes for D65 in the exact environment,
  \<open>Binv * (diag(a0, a4, a8) * B)\<close> evaluated in the rationals; its diagonal is about
  \<open>(1.0479, 0.9905, 0.7520)\<close>.
\<close>

definition D50_adaptation_D65 :: mat3 where
  "D50_adaptation_D65 =
     ((Fin (22579008912018131754708895197518479 / 21547789479069475218750000000000000),
       Fin (1974413132272627317358877665601549 / 86191157916277900875000000000000000),
       Fin (- (4323542185119554301864996117270749 / 86191157916277900875000000000000000))),
      (Fin (3823073459273857104368547048357043 / 129286736874416851312500000000000000),
       Fin (256110705618683799556375389486260179 / 258573473748833702625000000000000000),
       Fin (- (4411656027068831261483615052422629 / 258573473748833702625000000000000000))),
      (Fin (- (132741163211485603722391551129833 / 14365192986046316812500000000000000)),
       Fin (216238122738901110048826358980913 / 14365192986046316812500000000000000),
       Fin (5401103212171938292583893628502281 / 7182596493023158406250000000000000)))"

section \<open>Properties\<close>

subsection \<open>Zig-zag packing\<close>

lemma sdb31: "signed_drop_bit 31 (v::32 word) = (if 0 \<le> sint v then 0 else -1)"
proof -
  have m: "bit v 31 \<longleftrightarrow> sint v < 0"
    using bit_last_iff [of v] by simp
  show ?thesis
    by (rule bit_word_eqI) (auto simp add: bit_simps m not_le)
qed

lemma and1: "(u :: 32 word) AND 1 = (if odd u then 1 else 0)"
  by (simp add: and_one_eq mod_2_eq_odd)

lemma PackSigned_nonneg: "0 \<le> sint v \<Longrightarrow> PackSigned v = 2 * v"
  by (simp add: PackSigned_def sdb31 push_bit_eq_mult)

lemma PackSigned_neg: "sint v < 0 \<Longrightarrow> PackSigned v = - (2 * v) - 1"
  by (simp add: PackSigned_def sdb31 push_bit_eq_mult not_le flip: not_eq_complement)

lemma Unpack_Pack: "UnpackSigned (PackSigned v) = v"
proof -
  have m: "bit v 31 \<longleftrightarrow> sint v < 0"
    using bit_last_iff [of v] by simp
  show ?thesis
  proof (cases "0 \<le> sint v")
    case True
    then have nb: "\<not> bit v 31" using m by simp
    have "UnpackSigned (PackSigned v) = drop_bit 1 (push_bit 1 v)"
      using True by (simp add: UnpackSigned_def PackSigned_def sdb31 and1)
    also have "\<dots> = v"
    proof (rule bit_word_eqI)
      fix n assume "n < LENGTH(32)"
      then show "bit (drop_bit 1 (push_bit 1 v)) n = bit v n"
        using nb by (cases "n = 31") (auto simp add: bit_drop_bit_eq bit_double_iff mult.commute [of v 2] possible_bit_word)
    qed
    finally show ?thesis .
  next
    case False
    then have b: "bit v 31" using m by simp
    have "UnpackSigned (PackSigned v) = NOT (drop_bit 1 (NOT (push_bit 1 v)))"
      using False by (simp add: UnpackSigned_def PackSigned_def sdb31 and1)
    also have "\<dots> = v"
    proof (rule bit_word_eqI)
      fix n assume "n < LENGTH(32)"
      then show "bit (NOT (drop_bit 1 (NOT (push_bit 1 v)))) n = bit v n"
        using b by (cases "n = 31") (auto simp add: bit_drop_bit_eq bit_not_iff bit_double_iff mult.commute [of v 2] possible_bit_word)
    qed
    finally show ?thesis .
  qed
qed

lemma uint_word_of_int_32: "uint (word_of_int k :: 32 word) = k mod 4294967296"
  by (simp add: uint_word_of_int take_bit_eq_mod)

lemma word_of_int_double: "word_of_int (2 * sint v) = 2 * (v :: 32 word)"
proof -
  have "word_of_int (2 * sint v) = 2 * (word_of_int (sint v) :: 32 word)"
    by (simp only: of_int_mult of_int_numeral)
  then show ?thesis by (simp only: of_int_sint scast_id)
qed

lemma word_of_int_double_neg: "word_of_int (- 2 * sint v - 1) = - (2 * (v :: 32 word)) - 1"
proof -
  have "word_of_int (- 2 * sint v - 1) = - (2 * (word_of_int (sint v) :: 32 word)) - 1"
    by (simp only: of_int_mult of_int_numeral of_int_diff of_int_minus of_int_1 mult_minus_left)
  then show ?thesis by (simp only: of_int_sint scast_id)
qed

lemma unat_PackSigned:
  "int (unat (PackSigned v)) = (if 0 \<le> sint v then 2 * sint v else - 2 * sint v - 1)"
proof (cases "0 \<le> sint v")
  case True
  have lt: "sint v < 2147483648" using sint_lt [of v] by simp
  have "int (unat (PackSigned v)) = uint (PackSigned v)"
    by simp
  also have "\<dots> = uint (word_of_int (2 * sint v) :: 32 word)"
    by (simp only: PackSigned_nonneg [OF True] word_of_int_double)
  also have "\<dots> = (2 * sint v) mod 4294967296"
    by (rule uint_word_of_int_32)
  also have "\<dots> = 2 * sint v"
    by (rule mod_pos_pos_trivial) (use True lt in linarith)+
  finally show ?thesis using True by simp
next
  case False
  then have neg: "sint v < 0" by simp
  have ge: "- 2147483648 \<le> sint v" using sint_ge [of v] by simp
  have "int (unat (PackSigned v)) = uint (PackSigned v)"
    by simp
  also have "\<dots> = uint (word_of_int (- 2 * sint v - 1) :: 32 word)"
    by (simp only: PackSigned_neg [OF neg] word_of_int_double_neg)
  also have "\<dots> = (- 2 * sint v - 1) mod 4294967296"
    by (rule uint_word_of_int_32)
  also have "\<dots> = - 2 * sint v - 1"
    by (rule mod_pos_pos_trivial) (use False ge in linarith)+
  finally show ?thesis using False by simp
qed

lemma PackSigned_fits:
  "unat (PackSigned v) \<le> 4194303 \<longleftrightarrow> - 2097152 \<le> sint v \<and> sint v \<le> 2097151"
proof -
  have e: "unat (PackSigned v) \<le> 4194303 \<longleftrightarrow> int (unat (PackSigned v)) \<le> 4194303"
    by linarith
  show ?thesis
  proof (cases "0 \<le> sint v")
    case True
    then show ?thesis unfolding e unat_PackSigned by auto
  next
    case False
    then show ?thesis unfolding e unat_PackSigned by auto
  qed
qed

subsection \<open>Customxy: tiers, capacity, rounding\<close>

lemma feasible_tiers:
  "U32_feasible Customxy_U32Enc u =
     (if unat u < 524288 then [Bits 19]
      else if unat u < 1048576 then [BitsOffset 19 524288]
      else if unat u < 2097152 then [BitsOffset 20 1048576]
      else if unat u < 4194304 then [BitsOffset 21 2097152]
      else [])"
  by (simp add: U32_feasible_def Customxy_U32Enc_def)

lemma CanEncode_iff: "U32_CanEncode Customxy_U32Enc u \<longleftrightarrow> unat u \<le> 4194303"
  by (simp add: U32_CanEncode_def feasible_tiers)

lemma VisitFields_CanEncode:
  "Customxy_VisitFields CanEncodeVisitor_U32 c ok =
     (StatusOK, c,
      (ok \<and> U32_CanEncode Customxy_U32Enc (PackSigned (storage_x c)))
       \<and> U32_CanEncode Customxy_U32Enc (PackSigned (storage_y c)))"
  by (simp add: Customxy_VisitFields_def CanEncodeVisitor_U32_def Let_def Unpack_Pack)

lemma Customxy_CanEncode_eq:
  "Customxy_CanEncode c =
     (unat (PackSigned (storage_x c)) \<le> 4194303 \<and> unat (PackSigned (storage_y c)) \<le> 4194303, c)"
  by (simp add: Customxy_CanEncode_def VisitFields_CanEncode CanEncode_iff)

lemma VisitFields_Recording:
  "Customxy_VisitFields RecordingVisitor_U32 c seen =
     (StatusOK, c, seen @ [(Customxy_U32Enc, PackSigned (storage_x c)),
                          (Customxy_U32Enc, PackSigned (storage_y c))])"
  by (simp add: Customxy_VisitFields_def RecordingVisitor_U32_def Let_def Unpack_Pack)

lemma F64To_in_range:
  "fp_le (Fin (- 4)) f \<Longrightarrow> fp_le f (Fin 4) \<Longrightarrow>
   F64ToCustomxyI32 E f i =
     (StatusOK, float_to_int32 E (roundf (fp_to_float (rnd32 E) (fp_mul (rnd64 E) f (Fin 1000000)))))"
  by (simp add: F64ToCustomxyI32_def)

lemma Customxy_Set_in_range:
  assumes "fp_le (Fin (- 4)) (xy_x xy)" "fp_le (xy_x xy) (Fin 4)"
    "fp_le (Fin (- 4)) (xy_y xy)" "fp_le (xy_y xy) (Fin 4)"
  shows "Customxy_Set E c xy =
     (if unat (PackSigned (stored_i32 E (xy_x xy))) \<le> 4194303 \<and>
         unat (PackSigned (stored_i32 E (xy_y xy))) \<le> 4194303
      then StatusOK else JXL_FAILURE ''Unable to encode XY %f %f'',
      c\<lparr>storage_x := stored_i32 E (xy_x xy), storage_y := stored_i32 E (xy_y xy)\<rparr>)"
  using assms
  by (simp add: Customxy_Set_def F64To_in_range Customxy_CanEncode_eq stored_i32_def Let_def)

lemma accurate_exact_env: "accurate exact_env"
  by (simp add: accurate_def exact_env_def)

lemma accurate_rnd64:
  assumes "accurate E" "1 / 18446744073709551616 \<le> \<bar>r\<bar>" "\<bar>r\<bar> \<le> 18446744073709551616"
  obtains q where "rnd64 E r = Fin q" "\<bar>q - r\<bar> \<le> \<bar>r\<bar> / 9007199254740992"
proof -
  have "\<exists>q. rnd64 E r = Fin q \<and> \<bar>q - r\<bar> \<le> \<bar>r\<bar> / 2 ^ 53"
    using assms by (simp add: accurate_def)
  then show ?thesis using that by auto
qed

lemma accurate_rnd32:
  assumes "accurate E" "1 / 18446744073709551616 \<le> \<bar>r\<bar>" "\<bar>r\<bar> \<le> 18446744073709551616"
  obtains q where "rnd32 E r = Fin q" "\<bar>q - r\<bar> \<le> \<bar>r\<bar> / 16777216"
proof -
  have "\<exists>q. rnd32 E r = Fin q \<and> \<bar>q - r\<bar> \<le> \<bar>r\<bar> / 2 ^ 24"
    using assms by (simp add: accurate_def)
  then show ?thesis using that by auto
qed

lemma two_roundings:
  assumes acc: "accurate E" and lo: "1 / 2 \<le> \<bar>v\<bar>" and hi: "\<bar>v\<bar> \<le> 5000000"
  obtains q where "fp_to_float (rnd32 E) (rnd64 E v) = Fin q" "\<bar>q - v\<bar> \<le> \<bar>v\<bar> / 8388608"
proof -
  have r1: "1 / 18446744073709551616 \<le> \<bar>v\<bar>" "\<bar>v\<bar> \<le> 18446744073709551616"
    using lo hi by linarith+
  obtain q1 where q1: "rnd64 E v = Fin q1" "\<bar>q1 - v\<bar> \<le> \<bar>v\<bar> / 9007199254740992"
    using accurate_rnd64 [OF acc r1] by blast
  have b1: "\<bar>q1\<bar> \<le> \<bar>v\<bar> + \<bar>v\<bar> / 9007199254740992" "\<bar>v\<bar> - \<bar>v\<bar> / 9007199254740992 \<le> \<bar>q1\<bar>"
    using q1(2) by linarith+
  have r2: "1 / 18446744073709551616 \<le> \<bar>q1\<bar>" "\<bar>q1\<bar> \<le> 18446744073709551616"
    using b1 lo hi by linarith+
  obtain q2 where q2: "rnd32 E q1 = Fin q2" "\<bar>q2 - q1\<bar> \<le> \<bar>q1\<bar> / 16777216"
    using accurate_rnd32 [OF acc r2] by blast
  have "\<bar>q2 - v\<bar> \<le> \<bar>v\<bar> / 8388608"
    using q1(2) q2(2) b1 by linarith
  moreover have "fp_to_float (rnd32 E) (rnd64 E v) = Fin q2"
    by (simp add: q1(1) q2(1))
  ultimately show ?thesis using that by blast
qed

lemma round_half_away_near:
  assumes "\<bar>q - of_int k\<bar> < 1 / 2"
  shows "round_half_away q = k"
proof (cases "0 \<le> q")
  case True
  have "\<lfloor>q + 1 / 2\<rfloor> = k"
    by (rule floor_unique) (use assms in linarith)+
  then show ?thesis using True by (simp add: round_half_away_def)
next
  case False
  have "\<lceil>q - 1 / 2\<rceil> = k"
    by (rule ceiling_unique) (use assms in linarith)+
  then show ?thesis using False by (simp add: round_half_away_def)
qed

lemma trunc_zero_of_int: "trunc_zero (of_int k) = k"
  by (simp add: trunc_zero_def)

lemma float_to_int32_of_int:
  "- 2147483648 \<le> k \<Longrightarrow> k < 2147483648 \<Longrightarrow> float_to_int32 E (Fin (of_int k)) = word_of_int k"
  by (simp add: float_to_int32_def trunc_zero_of_int)

lemma sint_word_of_int_32:
  "- 2147483648 \<le> k \<Longrightarrow> k < 2147483648 \<Longrightarrow> sint (word_of_int k :: 32 word) = k"
  by (simp add: sint_sbintrunc' signed_take_bit_int_eq_self)


lemma stored_i32_Fin:
  "stored_i32 E (Fin x) =
     float_to_int32 E (roundf (fp_to_float (rnd32 E) (rnd64 E (x * 1000000))))"
  by (simp add: stored_i32_def)

lemma stored_multiple:
  assumes acc: "accurate E"
    and near: "\<bar>x - of_int k / 1000000\<bar> \<le> \<bar>of_int k / 1000000\<bar> / 9007199254740992"
    and k: "\<bar>k\<bar> \<le> 4000000"
  shows "stored_i32 E (Fin x) = word_of_int k"
proof (cases "k = 0")
  case True
  then have "x = 0" using near by simp
  moreover have "rnd64 E 0 = Fin 0" "rnd32 E 0 = Fin 0"
    using acc by (simp_all add: accurate_def)
  ultimately show ?thesis
    using True by (simp add: stored_i32_Fin round_half_away_def float_to_int32_def trunc_zero_def)
next
  case False
  define v where "v = x * 1000000"
  have k1: "1 \<le> \<bar>real_of_int k\<bar>" "\<bar>real_of_int k\<bar> \<le> 4000000"
    using False k by linarith+
  have vk: "\<bar>v - of_int k\<bar> \<le> \<bar>real_of_int k\<bar> / 9007199254740992"
  proof -
    have "\<bar>v - of_int k\<bar> = \<bar>x - of_int k / 1000000\<bar> * 1000000"
      unfolding v_def by (simp add: abs_if field_simps)
    also have "\<dots> \<le> (\<bar>of_int k / 1000000\<bar> / 9007199254740992) * 1000000"
      using near by (simp only: mult_le_cancel_right_pos)
    also have "\<dots> = \<bar>real_of_int k\<bar> / 9007199254740992"
      by simp
    finally show ?thesis .
  qed
  have lo: "1 / 2 \<le> \<bar>v\<bar>" and hi: "\<bar>v\<bar> \<le> 5000000"
    using vk k1 by linarith+
  obtain q where q: "fp_to_float (rnd32 E) (rnd64 E v) = Fin q" "\<bar>q - v\<bar> \<le> \<bar>v\<bar> / 8388608"
    using two_roundings [OF acc lo hi] by blast
  have "\<bar>q - of_int k\<bar> < 1 / 2"
    using q(2) vk k1 by linarith
  then have "round_half_away q = k"
    by (rule round_half_away_near)
  moreover have "- 2147483648 \<le> k" "k < 2147483648"
    using k by linarith+
  ultimately show ?thesis
    using q(1) by (simp add: stored_i32_Fin v_def float_to_int32_of_int)
qed

lemma stored_large_pos:
  assumes acc: "accurate E" and lo: "2097153 / 1000000 \<le> r" and hi: "r \<le> 4"
  shows "\<exists>n. stored_i32 E (Fin r) = word_of_int n \<and> 2097153 \<le> n \<and> n < 2147483648"
proof -
  define v where "v = r * 1000000"
  have v: "2097153 \<le> v" "v \<le> 4000000"
    using lo hi by (simp_all add: v_def)
  have "1 / 2 \<le> \<bar>v\<bar>" "\<bar>v\<bar> \<le> 5000000"
    using v by linarith+
  then obtain q where q: "fp_to_float (rnd32 E) (rnd64 E v) = Fin q" "\<bar>q - v\<bar> \<le> \<bar>v\<bar> / 8388608"
    using two_roundings [OF acc] by blast
  have av: "\<bar>v\<bar> = v" using v by simp
  have "v - v / 8388608 \<le> q" "q \<le> v + v / 8388608"
    using q(2) unfolding av by linarith+
  then have qb: "2097152 + 5 / 8 \<le> q" "q \<le> 4000001"
    using v by linarith+
  then have nonneg: "0 \<le> q" by linarith
  define n where "n = round_half_away q"
  have n_eq: "n = \<lfloor>q + 1 / 2\<rfloor>"
    using nonneg by (simp add: n_def round_half_away_def)
  have "real_of_int 2097153 \<le> q + 1 / 2"
    using qb by simp
  then have n_lo: "2097153 \<le> n"
    unfolding n_eq by (simp only: le_floor_iff)
  have "q + 1 / 2 < real_of_int 2147483648"
    using qb by simp
  then have n_hi: "n < 2147483648"
    unfolding n_eq by (simp only: floor_less_iff)
  have "stored_i32 E (Fin r) = word_of_int n"
    using q(1) n_lo n_hi by (simp add: stored_i32_Fin v_def n_def [symmetric] float_to_int32_of_int)
  then show ?thesis using n_lo n_hi by blast
qed

lemma stored_large_neg:
  assumes acc: "accurate E" and lo: "- 4 \<le> r" and hi: "r \<le> - (2097153 / 1000000)"
  shows "\<exists>n. stored_i32 E (Fin r) = word_of_int n \<and> n \<le> - 2097153 \<and> - 2147483648 \<le> n"
proof -
  define v where "v = r * 1000000"
  have v: "v \<le> - 2097153" "- 4000000 \<le> v"
    using lo hi by (simp_all add: v_def)
  have "1 / 2 \<le> \<bar>v\<bar>" "\<bar>v\<bar> \<le> 5000000"
    using v by linarith+
  then obtain q where q: "fp_to_float (rnd32 E) (rnd64 E v) = Fin q" "\<bar>q - v\<bar> \<le> \<bar>v\<bar> / 8388608"
    using two_roundings [OF acc] by blast
  have av: "\<bar>v\<bar> = - v" using v by simp
  have "v + v / 8388608 \<le> q" "q \<le> v - v / 8388608"
    using q(2) unfolding av by linarith+
  then have qb: "q \<le> - 2097152 - 5 / 8" "- 4000001 \<le> q"
    using v by linarith+
  then have neg: "\<not> 0 \<le> q" by linarith
  define n where "n = round_half_away q"
  have n_eq: "n = \<lceil>q - 1 / 2\<rceil>"
    using neg by (simp add: n_def round_half_away_def)
  have "q - 1 / 2 \<le> real_of_int (- 2097153)"
    using qb by simp
  then have n_hi: "n \<le> - 2097153"
    unfolding n_eq by (simp only: ceiling_le_iff)
  have "real_of_int (- 2147483649) < q - 1 / 2"
    using qb by simp
  then have "- 2147483649 < n"
    unfolding n_eq by (simp only: less_ceiling_iff)
  then have n_lo: "- 2147483648 \<le> n" by linarith
  have "n < 2147483648" using n_hi by linarith
  then have "stored_i32 E (Fin r) = word_of_int n"
    using q(1) n_lo by (simp add: stored_i32_Fin v_def n_def [symmetric] float_to_int32_of_int)
  then show ?thesis using n_lo n_hi by blast
qed


lemma F64From_near:
  assumes acc: "accurate E" and k: "\<bar>k\<bar> \<le> 4000000"
  shows "\<exists>g. F64FromCustomxyI32 E (word_of_int k) = Fin g \<and>
             \<bar>g - of_int k / 1000000\<bar> \<le> 9 / 9007199254740992"
proof -
  have range: "- 2147483648 \<le> k" "k < 2147483648"
    using k by linarith+
  have sk: "sint (word_of_int k :: 32 word) = k"
    using range by (rule sint_word_of_int_32)
  have "1 / 18446744073709551616 \<le> \<bar>1 / 1000000 :: real\<bar>"
    "\<bar>1 / 1000000 :: real\<bar> \<le> 18446744073709551616"
    by simp_all
  then obtain l where l: "rnd64 E (1 / 1000000) = Fin l"
    "\<bar>l - 1 / 1000000\<bar> \<le> \<bar>1 / 1000000 :: real\<bar> / 9007199254740992"
    using accurate_rnd64 [OF acc] by blast
  define d where "d = l - 1 / 1000000"
  have d: "\<bar>d\<bar> \<le> 1 / 9007199254740992000000"
    using l(2) by (simp add: d_def)
  define p where "p = real_of_int k * l"
  have eq: "F64FromCustomxyI32 E (word_of_int k) = rnd64 E p"
    by (simp add: F64FromCustomxyI32_def lit64_def sk l(1) p_def)
  show ?thesis
  proof (cases "k = 0")
    case True
    have "rnd64 E 0 = Fin 0"
      using acc by (simp add: accurate_def)
    then have "rnd64 E p = Fin 0"
      using True by (simp add: p_def)
    then have "F64FromCustomxyI32 E (word_of_int k) = Fin 0"
      by (simp only: eq)
    moreover have "\<bar>0 - real_of_int k / 1000000\<bar> \<le> 9 / 9007199254740992"
      using True by simp
    ultimately show ?thesis by blast
  next
    case False
    have k1: "1 \<le> \<bar>real_of_int k\<bar>" "\<bar>real_of_int k\<bar> \<le> 4000000"
      using False k by linarith+
    have pd: "p - of_int k / 1000000 = real_of_int k * d"
      by (simp add: p_def d_def algebra_simps)
    have "\<bar>real_of_int k * d\<bar> \<le> 4000000 * (1 / 9007199254740992000000)"
      unfolding abs_mult by (rule mult_mono) (use k1 d in simp_all)
    then have p_near: "\<bar>p - of_int k / 1000000\<bar> \<le> 4 / 9007199254740992"
      unfolding pd by simp
    have l_lo: "1 / 2000000 \<le> \<bar>l\<bar>"
      using d unfolding d_def by linarith
    have "1 * \<bar>l\<bar> \<le> \<bar>real_of_int k\<bar> * \<bar>l\<bar>"
      by (rule mult_right_mono) (use k1 in simp_all)
    then have p_lo: "1 / 2000000 \<le> \<bar>p\<bar>"
      using l_lo by (simp add: p_def abs_mult)
    have "\<bar>real_of_int k / 1000000\<bar> \<le> 4"
      using k1 by simp
    then have p_hi: "\<bar>p\<bar> \<le> 5"
      using p_near by linarith
    have "1 / 18446744073709551616 \<le> \<bar>p\<bar>" "\<bar>p\<bar> \<le> 18446744073709551616"
      using p_lo p_hi by linarith+
    then obtain g where g: "rnd64 E p = Fin g" "\<bar>g - p\<bar> \<le> \<bar>p\<bar> / 9007199254740992"
      using accurate_rnd64 [OF acc] by blast
    have "\<bar>g - of_int k / 1000000\<bar> \<le> 9 / 9007199254740992"
      using g(2) p_near p_hi by linarith
    then show ?thesis using g(1) eq by simp
  qed
qed

lemma fp_le_Fin [simp]: "fp_le (Fin a) (Fin b) \<longleftrightarrow> a \<le> b"
  by (auto simp add: fp_le_def)

subsection \<open>Default construction and its description\<close>

lemma UnpackSigned_0: "UnpackSigned 0 = 0"
  by (simp add: UnpackSigned_def)

lemma Customxy_ctor_eq: "Customxy_ctor raw = Some \<lparr>storage_x = 0, storage_y = 0\<rparr>"
  by (simp add: Customxy_ctor_def Customxy_VisitFields_def InitVisitor_def UnpackSigned_0 Let_def)

lemma InitVisitor_simps:
  "v_IsReading InitVisitor = False"
  "v_AllDefault InitVisitor c v = (False, True, v)"
  "v_Bool InitVisitor b0 b v = (StatusOK, b0, v)"
  "v_Enum_ColorSpace InitVisitor cs0 cs v = (StatusOK, cs0, v)"
  "v_Enum_WhitePoint InitVisitor wp0 wp v = (StatusOK, wp0, v)"
  "v_Enum_Primaries InitVisitor p0 p v = (StatusOK, p0, v)"
  "v_Enum_TransferFunction InitVisitor f0 f v = (StatusOK, f0, v)"
  "v_Enum_RenderingIntent InitVisitor ri0 ri v = (StatusOK, ri0, v)"
  by (simp_all add: InitVisitor_def)

lemma tf_Init:
  "CustomTransferFunction_VisitFields E InitVisitor (CustomTransferFunction_default E) v
     = Some (StatusOK, CustomTransferFunction_default E, v)"
  by (simp add: CustomTransferFunction_VisitFields_def CustomTransferFunction_default_def
      SetImplicit_def Conditional_def InitVisitor_simps
      CustomTransferFunction_VisitFields_gamma_def)

lemma white_point_Init:
  "color_space c = kRGB \<Longrightarrow>
   VisitFields_white_point InitVisitor c v = (StatusOK, c\<lparr>white_point := kD65\<rparr>, v)"
  by (simp add: VisitFields_white_point_def Conditional_def ImplicitWhitePoint_def
      InitVisitor_simps)

lemma primaries_Init:
  "color_space c = kRGB \<Longrightarrow>
   VisitFields_primaries InitVisitor c v = (StatusOK, c\<lparr>primaries := Primaries.kSRGB\<rparr>, v)"
  by (simp add: VisitFields_primaries_def Conditional_def HasPrimaries_def InitVisitor_simps)

lemma descriptive_Init:
  "color_space c = kRGB \<Longrightarrow> tf c = CustomTransferFunction_default E \<Longrightarrow>
   VisitFields_descriptive E InitVisitor c v =
     Some (StatusOK,
           c\<lparr>white_point := kD65, primaries := Primaries.kSRGB,
              tf := CustomTransferFunction_default E, rendering_intent := kRelative\<rparr>, v)"
  by (simp add: VisitFields_descriptive_def white_point_Init primaries_Init tf_Init
      InitVisitor_simps)

lemma CreateICC_fields:
  "CreateICC E c = (st, c') \<Longrightarrow> \<exists>bytes. c' = c\<lparr>icc := bytes\<rparr>"
  by (auto simp add: CreateICC_def Let_def split: prod.splits)

lemma ctor_eq:
  "ColorEncoding_ctor E raw =
     (case CreateICC E (Init_fields E raw) of
        (st, c) \<Rightarrow> if IsOK st \<and> IsOK (VisitFields_final InitVisitor c) then Some c else None)"
proof -
  define c2 where "c2 = raw\<lparr>white_custom := \<lparr>storage_x = 0, storage_y = 0\<rparr>,
      red_custom := \<lparr>storage_x = 0, storage_y = 0\<rparr>,
      green_custom := \<lparr>storage_x = 0, storage_y = 0\<rparr>,
      blue_custom := \<lparr>storage_x = 0, storage_y = 0\<rparr>,
      tf := CustomTransferFunction_default E, all_default := True,
      want_icc := False, color_space := kRGB\<rparr>"
  have c6: "Init_fields E raw = c2\<lparr>white_point := kD65, primaries := Primaries.kSRGB,
      tf := CustomTransferFunction_default E, rendering_intent := kRelative\<rparr>"
    by (simp add: Init_fields_def c2_def)
  have d: "VisitFields_descriptive E InitVisitor c2 () = Some (StatusOK, Init_fields E raw, ())"
    unfolding c6 by (rule descriptive_Init) (simp_all add: c2_def)
  have known: "\<not> (color_space (Init_fields E raw) = ColorSpace.kUnknown
                 \<or> IsUnknown (tf (Init_fields E raw)))"
    by (simp add: Init_fields_def IsUnknown_def CustomTransferFunction_default_def)
  obtain st c7 where cr: "CreateICC E (Init_fields E raw) = (st, c7)"
    by (cases "CreateICC E (Init_fields E raw)")
  have br: "VisitFields_no_icc_branch E InitVisitor c2 () = Some (st, c7, ())"
    using d known cr
    by (simp add: VisitFields_no_icc_branch_def Conditional_def WantICC_def c2_def
        VisitFields_check_and_create_def)
  have "ColorEncoding_VisitFields E InitVisitor
          (raw\<lparr>white_custom := \<lparr>storage_x = 0, storage_y = 0\<rparr>,
              red_custom := \<lparr>storage_x = 0, storage_y = 0\<rparr>,
              green_custom := \<lparr>storage_x = 0, storage_y = 0\<rparr>,
              blue_custom := \<lparr>storage_x = 0, storage_y = 0\<rparr>,
              tf := CustomTransferFunction_default E\<rparr>) ()
        = (if \<not> IsOK st then Some (st, c7, ()) else Some (VisitFields_final InitVisitor c7, c7, ()))"
    using br by (simp add: ColorEncoding_VisitFields_def VisitFields_leading_def
        InitVisitor_simps c2_def)
  then show ?thesis
    by (simp add: ColorEncoding_ctor_def Customxy_ctor_eq cr)
qed

lemma ctor_fields:
  assumes "ColorEncoding_ctor E raw = Some c"
  shows "color_space c = kRGB \<and> white_point c = kD65 \<and> primaries c = Primaries.kSRGB
     \<and> rendering_intent c = kRelative \<and> tf c = CustomTransferFunction_default E"
proof -
  obtain st c7 where cr: "CreateICC E (Init_fields E raw) = (st, c7)"
    by (cases "CreateICC E (Init_fields E raw)")
  obtain bytes where c7: "c7 = (Init_fields E raw)\<lparr>icc := bytes\<rparr>"
    using CreateICC_fields [OF cr] by blast
  from assms have "c = c7"
    by (simp add: ctor_eq cr split: if_splits)
  then show ?thesis by (simp add: c7 Init_fields_def)
qed

lemma Description_of_fields:
  assumes "color_space c = kRGB" "white_point c = kD65" "primaries c = Primaries.kSRGB"
    "rendering_intent c = kRelative" "\<not> have_gamma (tf c)"
    "transfer_function (tf c) = TransferFunction.kSRGB"
  shows "Description E c = Some ''RGB_D65_SRG_Rel_SRG''"
  using assms
  by (simp add: Description_def GetColorSpace_def HasPrimaries_def Description_white_point_def
      Description_primaries_def Description_tf_def IsGamma_def GetTransferFunction_def)

text \<open>
  Claim C10. A default-constructed \<open>ColorEncoding\<close> has the description
  \<open>RGB_D65_SRG_Rel_SRG\<close>: whenever the constructor returns an object, whatever the
  memory held before and whatever profile the generator produced, \<open>Description\<close>
  of that object is this string.
\<close>

theorem Description_default:
  "ColorEncoding_ctor E raw = Some c \<Longrightarrow> Description E c = Some ''RGB_D65_SRG_Rel_SRG''"
  using ctor_fields [of E raw c]
  by (intro Description_of_fields) (simp_all add: CustomTransferFunction_default_def)


theorem Description_default_witness:
  "ColorEncoding_ctor exact_env raw_example = Some default_example
   \<and> Description exact_env default_example = Some ''RGB_D65_SRG_Rel_SRG''"
proof -
  have h: "ColorEncoding_ctor exact_env raw_example = Some default_example"
    by (simp add: ctor_eq CreateICC_def Init_fields_def raw_example_def default_example_def exact_env_def
        exact_MaybeCreateProfile_def VisitFields_final_def InitVisitor_simps ICC_def
        WantICC_def CustomTransferFunction_default_def)
  show ?thesis using h Description_default [OF h] by simp
qed

subsection \<open>The wire tiers of a stored coordinate\<close>

text \<open>
  Claim C2, as the code has it. \<open>Customxy::VisitFields\<close> hands the visitor the
  zig-zag packed form of each of the two stored coordinates, both with the same four
  distributions. A packed value below \<open>2^19\<close> is written in 19 bits; from
  \<open>2^19\<close> to below \<open>2^20\<close> in 19 bits (after the offset 524288); from \<open>2^20\<close>
  to below \<open>2^21\<close> in 20 bits (offset 1048576); from \<open>2^21\<close> to below
  \<open>2^22\<close> in 21 bits (offset 2097152); there is no further tier, so a packed value
  of \<open>2^22\<close> or more has no encoding.
\<close>

theorem Customxy_wire_tiers:
  "Customxy_VisitFields RecordingVisitor_U32 c [] =
     (StatusOK, c, [(Customxy_U32Enc, PackSigned (storage_x c)),
                    (Customxy_U32Enc, PackSigned (storage_y c))])
   \<and> map ExtraBits (U32_feasible Customxy_U32Enc u) =
     (if unat u < 2 ^ 19 then [19]
      else if unat u < 2 ^ 20 then [19]
      else if unat u < 2 ^ 21 then [20]
      else if unat u < 2 ^ 22 then [21]
      else [])"
  by (simp add: VisitFields_Recording feasible_tiers)

text \<open>
  Claim C2 as stated fails: the second tier has 19 bits where the claim says 20 (the
  packed value \<open>2^19 = 524288\<close> is written in 19 bits), the widths of the four
  distributions are 19, 19, 20, 21 and not 19, 20, 21 and a full width, and the
  packed value \<open>2^22 = 4194304\<close> can be written by no distribution: there is no
  full-width fallback.
\<close>

theorem Customxy_wire_tiers_counterexample:
  "map ExtraBits (U32_feasible Customxy_U32Enc 524288) = [19]
   \<and> Customxy_tier_bits_spec 524288 = 20
   \<and> U32_feasible Customxy_U32Enc 4194304 = []
   \<and> map ExtraBits Customxy_U32Enc \<noteq> [19, 20, 21, 32]"
proof -
  have "map ExtraBits Customxy_U32Enc \<noteq> [19, 20, 21, 32]"
    by (simp add: Customxy_U32Enc_def)
  then show ?thesis
    by (simp add: feasible_tiers Customxy_tier_bits_spec_def)
qed

subsection \<open>The capacity of Customxy.Set\<close>

lemma mk_CIExy_sel [simp]: "xy_x (mk_CIExy a b) = a" "xy_y (mk_CIExy a b) = b"
  by (simp_all add: mk_CIExy_def)

lemma not_fits_large:
  assumes "stored_i32 E f = word_of_int n" "2097153 \<le> n" "n < 2147483648"
  shows "\<not> unat (PackSigned (stored_i32 E f)) \<le> 4194303"
proof -
  have "sint (word_of_int n :: 32 word) = n"
    using assms(2,3) by (intro sint_word_of_int_32) linarith+
  then show ?thesis
    using assms(1,2) by (simp add: PackSigned_fits)
qed

lemma not_fits_small:
  assumes "stored_i32 E f = word_of_int n" "n \<le> - 2097153" "- 2147483648 \<le> n"
  shows "\<not> unat (PackSigned (stored_i32 E f)) \<le> 4194303"
proof -
  have "sint (word_of_int n :: 32 word) = n"
    using assms(2,3) by (intro sint_word_of_int_32) linarith+
  then show ?thesis
    using assms(1,2) by (simp add: PackSigned_fits)
qed

lemma not_fits_magnitude:
  assumes acc: "accurate E" and r: "fp_le (Fin (- 4)) (Fin r)" "fp_le (Fin r) (Fin 4)"
    and big: "2097153 / 1000000 \<le> \<bar>r\<bar>"
  shows "\<not> unat (PackSigned (stored_i32 E (Fin r))) \<le> 4194303"
proof (cases "0 \<le> r")
  case True
  then have "2097153 / 1000000 \<le> r" "r \<le> 4" using big r by simp_all
  then obtain n where "stored_i32 E (Fin r) = word_of_int n" "2097153 \<le> n" "n < 2147483648"
    using stored_large_pos [OF acc] by blast
  then show ?thesis by (rule not_fits_large)
next
  case False
  then have "- 4 \<le> r" "r \<le> - (2097153 / 1000000)" using big r by simp_all
  then obtain n where "stored_i32 E (Fin r) = word_of_int n" "n \<le> - 2097153" "- 2147483648 \<le> n"
    using stored_large_neg [OF acc] by blast
  then show ?thesis by (rule not_fits_small)
qed

lemma round_half_away_range:
  assumes "\<bar>q\<bar> \<le> 2147483647"
  shows "- 2147483648 \<le> round_half_away q \<and> round_half_away q < 2147483648"
proof (cases "0 \<le> q")
  case True
  have "real_of_int 0 \<le> q + 1 / 2" "q + 1 / 2 < real_of_int 2147483648"
    using True assms by simp_all
  then have "0 \<le> \<lfloor>q + 1 / 2\<rfloor>" "\<lfloor>q + 1 / 2\<rfloor> < 2147483648"
    by (simp_all only: le_floor_iff floor_less_iff)
  then show ?thesis using True by (simp add: round_half_away_def)
next
  case False
  have "q - 1 / 2 \<le> real_of_int 0" "real_of_int (- 2147483649) < q - 1 / 2"
    using False assms by simp_all
  then have "\<lceil>q - 1 / 2\<rceil> \<le> 0" "- 2147483649 < \<lceil>q - 1 / 2\<rceil>"
    by (simp_all only: ceiling_le_iff less_ceiling_iff)
  then show ?thesis using False by (simp add: round_half_away_def)
qed

lemma stored_i32_rounded:
  assumes "rnd64 E (x * 1000000) = Fin p" "rnd32 E p = Fin q" "\<bar>q\<bar> \<le> 2147483647"
  shows "stored_i32 E (Fin x) = word_of_int (round_half_away q)"
    and "sint (stored_i32 E (Fin x)) = round_half_away q"
proof -
  have r: "- 2147483648 \<le> round_half_away q" "round_half_away q < 2147483648"
    using round_half_away_range [OF assms(3)] by simp_all
  show s: "stored_i32 E (Fin x) = word_of_int (round_half_away q)"
    using assms(1,2) r by (simp add: stored_i32_Fin float_to_int32_of_int)
  show "sint (stored_i32 E (Fin x)) = round_half_away q"
    unfolding s using r by (rule sint_word_of_int_32)
qed

text \<open>
  \<open>float_eighths\<close> moves a number by at most \<open>1/16\<close>, which is within the relative
  error \<open>2^-24\<close> of a \<open>float\<close> for magnitudes from \<open>2^20\<close> on.
\<close>

lemma float_eighths_near:
  assumes "float_eighths r = Fin v"
  shows "\<bar>v - r\<bar> \<le> 1 / 16"
proof -
  define k where "k = \<lfloor>r * 8\<rfloor>"
  have k: "of_int k \<le> r * 8" "r * 8 < of_int k + 1"
    unfolding k_def by linarith+
  have "\<bar>of_int (round_half_even (r * 8)) - r * 8\<bar> \<le> 1 / 2"
    using k unfolding round_half_even_def k_def [symmetric]
    by (auto simp add: abs_if)
  moreover have "v = of_int (round_half_even (r * 8)) / 8"
    using assms by (simp add: float_eighths_def)
  ultimately show ?thesis by (simp add: abs_if field_simps split: if_splits)
qed

lemma binade_stored:
  "stored_i32 binade_env (Fin (35184363 / 16777216)) = 2097152"
proof -
  have f: "\<lfloor>549755671875 / 32768 :: real\<rfloor> = 16777211"
    by (simp add: floor_eq_iff)
  have q: "float_eighths (549755671875 / 262144) = Fin (4194303 / 2)"
    by (simp add: float_eighths_def round_half_even_def f)
  have r: "round_half_away (4194303 / 2) = 2097152"
    by (simp add: round_half_away_def)
  have "stored_i32 binade_env (Fin (35184363 / 16777216))
      = word_of_int (round_half_away (4194303 / 2))"
  proof (rule stored_i32_rounded(1))
    show "rnd64 binade_env (35184363 / 16777216 * 1000000) = Fin (549755671875 / 262144)"
      by (simp add: binade_env_def exact_env_def)
    show "rnd32 binade_env (549755671875 / 262144) = Fin (4194303 / 2)"
      using q by (simp add: binade_env_def)
    show "\<bar>4194303 / 2 :: real\<bar> \<le> 2147483647" by simp
  qed
  then show ?thesis by (simp add: r)
qed

text \<open>
  Claim C4 as stated, "\<open>Set\<close> succeeds if and only if \<open>round(x * 1e6)\<close> and
  \<open>round(y * 1e6)\<close> fit the 22-bit capacity", fails. The source rounds the \<open>double\<close>
  product \<open>x * 1e6\<close> to \<open>float\<close> before \<open>roundf\<close>. The coordinate
  \<open>x = 35184363 / 2^24\<close>, about \<open>2.0971515\<close>, is a \<open>double\<close> inside \<open>[-4, 4]\<close>;
  \<open>x * 1e6 = 2097151.458...\<close> is a \<open>double\<close> too, and \<open>round(x * 1e6) = 2097151\<close>
  fits. The nearest \<open>float\<close> is \<open>2097151.5\<close>, which \<open>roundf\<close> takes to \<open>2097152\<close>;
  its packed form \<open>4194304\<close> does not fit, and \<open>Set\<close> fails.
\<close>

theorem Customxy_Set_capacity_counterexample:
  "fp_le (Fin (- 4)) (Fin (35184363 / 16777216)) \<and> fp_le (Fin (35184363 / 16777216)) (Fin 4)
   \<and> round_half_away (35184363 / 16777216 * 1000000) = 2097151
   \<and> U32_CanEncode Customxy_U32Enc (PackSigned (word_of_int 2097151))
   \<and> rnd64 binade_env (35184363 / 16777216 * 1000000) = Fin (549755671875 / 262144)
   \<and> rnd32 binade_env (549755671875 / 262144) = Fin (4194303 / 2)
   \<and> Customxy_Set binade_env \<lparr>storage_x = 0, storage_y = 0\<rparr>
        (mk_CIExy (Fin (35184363 / 16777216)) (Fin (35184363 / 16777216)))
      = (JXL_FAILURE ''Unable to encode XY %f %f'',
         \<lparr>storage_x = 2097152, storage_y = 2097152\<rparr>)"
proof -
  have f: "\<lfloor>549755671875 / 32768 :: real\<rfloor> = 16777211"
    by (simp add: floor_eq_iff)
  have a: "round_half_away (35184363 / 16777216 * 1000000) = 2097151"
    by (simp add: round_half_away_def floor_eq_iff)
  have b: "U32_CanEncode Customxy_U32Enc (PackSigned (word_of_int 2097151))"
    by (simp add: CanEncode_iff PackSigned_fits)
  have c: "rnd64 binade_env (35184363 / 16777216 * 1000000) = Fin (549755671875 / 262144)"
    by (simp add: binade_env_def exact_env_def)
  have d: "rnd32 binade_env (549755671875 / 262144) = Fin (4194303 / 2)"
    by (simp add: binade_env_def float_eighths_def round_half_even_def f)
  have n: "\<not> unat (PackSigned (2097152 :: 32 word)) \<le> 4194303"
    by (simp add: PackSigned_fits)
  have e: "Customxy_Set binade_env \<lparr>storage_x = 0, storage_y = 0\<rparr>
        (mk_CIExy (Fin (35184363 / 16777216)) (Fin (35184363 / 16777216)))
      = (JXL_FAILURE ''Unable to encode XY %f %f'',
         \<lparr>storage_x = 2097152, storage_y = 2097152\<rparr>)"
    by (subst Customxy_Set_in_range) (simp_all add: binade_stored n)
  show ?thesis using a b c d e by simp
qed

text \<open>
  Claim C4. For a coordinate pair inside \<open>[-4, 4]\<close>, let \<open>qx\<close> be the \<open>float\<close>
  nearest to the \<open>double\<close> product \<open>x * 1e6\<close> and \<open>nx\<close> be \<open>qx\<close> rounded to the
  nearest integer, halves away from zero; likewise \<open>qy\<close> and \<open>ny\<close>. \<open>Customxy::Set\<close>
  stores \<open>nx\<close> and \<open>ny\<close> in any case and succeeds exactly when the zig-zag packed
  form of each can be encoded, which is when it is at most
  \<open>2^21 + 2^21 - 1 = 4194303\<close>, that is when \<open>nx\<close> and \<open>ny\<close> lie in
  \<open>[-2097152, 2097151]\<close>; otherwise it fails with "Unable to encode XY", the stored
  integers already overwritten. With accurate rounding, every pair that has a
  coordinate of magnitude \<open>2.097153\<close> or more fails so.
\<close>

theorem Customxy_Set_capacity:
  assumes x: "xy_x xy = Fin x" "- 4 \<le> x" "x \<le> 4"
    and y: "xy_y xy = Fin y" "- 4 \<le> y" "y \<le> 4"
    and px: "rnd64 E (x * 1000000) = Fin px" and qx: "rnd32 E px = Fin qx"
    and bx: "\<bar>qx\<bar> \<le> 2147483647"
    and py: "rnd64 E (y * 1000000) = Fin py" and qy: "rnd32 E py = Fin qy"
    and "by": "\<bar>qy\<bar> \<le> 2147483647"
    and nx: "nx = (if 0 \<le> qx then \<lfloor>qx + 1 / 2\<rfloor> else \<lceil>qx - 1 / 2\<rceil>)"
    and ny: "ny = (if 0 \<le> qy then \<lfloor>qy + 1 / 2\<rfloor> else \<lceil>qy - 1 / 2\<rceil>)"
  shows "Customxy_Set E c xy =
      (if U32_CanEncode Customxy_U32Enc (PackSigned (word_of_int nx)) \<and>
          U32_CanEncode Customxy_U32Enc (PackSigned (word_of_int ny))
       then StatusOK else JXL_FAILURE ''Unable to encode XY %f %f'',
       c\<lparr>storage_x := word_of_int nx, storage_y := word_of_int ny\<rparr>)
    \<and> (\<forall>u. U32_CanEncode Customxy_U32Enc u \<longleftrightarrow> unat u \<le> 2 ^ 21 + 2 ^ 21 - 1)
    \<and> (U32_CanEncode Customxy_U32Enc (PackSigned (word_of_int nx))
          \<longleftrightarrow> - 2097152 \<le> nx \<and> nx \<le> 2097151)
    \<and> (U32_CanEncode Customxy_U32Enc (PackSigned (word_of_int ny))
          \<longleftrightarrow> - 2097152 \<le> ny \<and> ny \<le> 2097151)
    \<and> (accurate E \<longrightarrow>
         2097153 / 1000000 \<le> \<bar>x\<bar> \<or> 2097153 / 1000000 \<le> \<bar>y\<bar> \<longrightarrow>
            fst (Customxy_Set E c xy) = JXL_FAILURE ''Unable to encode XY %f %f'')"
proof -
  have nx': "nx = round_half_away qx" and ny': "ny = round_half_away qy"
    by (simp_all add: nx ny round_half_away_def)
  have sx: "stored_i32 E (xy_x xy) = word_of_int nx" "sint (word_of_int nx :: 32 word) = nx"
    using stored_i32_rounded [OF px qx bx] by (simp_all add: x(1) nx')
  have sy: "stored_i32 E (xy_y xy) = word_of_int ny" "sint (word_of_int ny :: 32 word) = ny"
    using stored_i32_rounded [OF py qy "by"] by (simp_all add: y(1) ny')
  have range: "fp_le (Fin (- 4)) (xy_x xy)" "fp_le (xy_x xy) (Fin 4)"
    "fp_le (Fin (- 4)) (xy_y xy)" "fp_le (xy_y xy) (Fin 4)"
    using x y by simp_all
  have set: "Customxy_Set E c xy =
      (if U32_CanEncode Customxy_U32Enc (PackSigned (word_of_int nx)) \<and>
          U32_CanEncode Customxy_U32Enc (PackSigned (word_of_int ny))
       then StatusOK else JXL_FAILURE ''Unable to encode XY %f %f'',
       c\<lparr>storage_x := word_of_int nx, storage_y := word_of_int ny\<rparr>)"
    by (simp add: Customxy_Set_in_range [OF range] CanEncode_iff sx(1) sy(1))
  have tier: "\<forall>u. U32_CanEncode Customxy_U32Enc u \<longleftrightarrow> unat u \<le> 2 ^ 21 + 2 ^ 21 - 1"
    by (simp add: CanEncode_iff)
  have fx: "U32_CanEncode Customxy_U32Enc (PackSigned (word_of_int nx))
      \<longleftrightarrow> - 2097152 \<le> nx \<and> nx \<le> 2097151"
    by (simp only: CanEncode_iff PackSigned_fits sx(2))
  have fy: "U32_CanEncode Customxy_U32Enc (PackSigned (word_of_int ny))
      \<longleftrightarrow> - 2097152 \<le> ny \<and> ny \<le> 2097151"
    by (simp only: CanEncode_iff PackSigned_fits sy(2))
  have large: "fst (Customxy_Set E c xy) = JXL_FAILURE ''Unable to encode XY %f %f''"
    if acc: "accurate E"
      and big: "2097153 / 1000000 \<le> \<bar>x\<bar> \<or> 2097153 / 1000000 \<le> \<bar>y\<bar>"
  proof -
    from big have "\<not> unat (PackSigned (stored_i32 E (xy_x xy))) \<le> 4194303
        \<or> \<not> unat (PackSigned (stored_i32 E (xy_y xy))) \<le> 4194303"
    proof
      assume b: "2097153 / 1000000 \<le> \<bar>x\<bar>"
      show ?thesis
        using not_fits_magnitude [OF acc _ _ b] x by simp
    next
      assume b: "2097153 / 1000000 \<le> \<bar>y\<bar>"
      show ?thesis
        using not_fits_magnitude [OF acc _ _ b] y by simp
    qed
    then show ?thesis
      by (auto simp add: Customxy_Set_in_range [OF range])
  qed
  show ?thesis
    using set tier fx fy large by blast
qed

theorem Customxy_Set_capacity_witness:
  "- 4 \<le> (3 :: real) \<and> (3 :: real) \<le> 4 \<and> - 4 \<le> (3 / 10 :: real) \<and> (3 / 10 :: real) \<le> 4
   \<and> rnd64 exact_env (3 * 1000000) = Fin 3000000 \<and> rnd32 exact_env 3000000 = Fin 3000000
   \<and> rnd64 exact_env (3 / 10 * 1000000) = Fin 300000 \<and> rnd32 exact_env 300000 = Fin 300000
   \<and> accurate exact_env \<and> (2097153 / 1000000 \<le> \<bar>3 :: real\<bar>)
   \<and> Customxy_Set exact_env \<lparr>storage_x = 0, storage_y = 0\<rparr> (mk_CIExy (Fin 3) (Fin (3 / 10)))
       = (JXL_FAILURE ''Unable to encode XY %f %f'', \<lparr>storage_x = 3000000, storage_y = 300000\<rparr>)
   \<and> \<not> U32_CanEncode Customxy_U32Enc (PackSigned (word_of_int 3000000))
   \<and> U32_CanEncode Customxy_U32Enc (PackSigned (word_of_int 300000))"
proof -
  have r: "rnd64 exact_env (3 * 1000000) = Fin 3000000" "rnd32 exact_env 3000000 = Fin 3000000"
    "rnd64 exact_env (3 / 10 * 1000000) = Fin 300000" "rnd32 exact_env 300000 = Fin 300000"
    by (simp_all add: exact_env_def)
  have n: "(3000000 :: int) = (if 0 \<le> (3000000 :: real) then \<lfloor>3000000 + 1 / 2 :: real\<rfloor>
        else \<lceil>3000000 - 1 / 2 :: real\<rceil>)"
    "(300000 :: int) = (if 0 \<le> (300000 :: real) then \<lfloor>300000 + 1 / 2 :: real\<rfloor>
        else \<lceil>300000 - 1 / 2 :: real\<rceil>)"
    by simp_all
  note T = Customxy_Set_capacity [where xy = "mk_CIExy (Fin 3) (Fin (3 / 10))"
      and E = exact_env and c = "\<lparr>storage_x = 0, storage_y = 0\<rparr>"
      and x = 3 and y = "3 / 10" and px = 3000000 and qx = 3000000
      and py = 300000 and qy = 300000 and nx = 3000000 and ny = 300000,
      OF _ _ _ _ _ _ r(1) r(2) _ r(3) r(4) _ n]
  have T': "Customxy_Set exact_env \<lparr>storage_x = 0, storage_y = 0\<rparr>
        (mk_CIExy (Fin 3) (Fin (3 / 10))) =
      (if U32_CanEncode Customxy_U32Enc (PackSigned (word_of_int 3000000)) \<and>
          U32_CanEncode Customxy_U32Enc (PackSigned (word_of_int 300000))
       then StatusOK else JXL_FAILURE ''Unable to encode XY %f %f'',
       \<lparr>storage_x = 0, storage_y = 0\<rparr>\<lparr>storage_x := word_of_int 3000000,
          storage_y := word_of_int 300000\<rparr>)"
    and fx: "U32_CanEncode Customxy_U32Enc (PackSigned (word_of_int 3000000))
          \<longleftrightarrow> - 2097152 \<le> (3000000 :: int) \<and> (3000000 :: int) \<le> 2097151"
    and fy: "U32_CanEncode Customxy_U32Enc (PackSigned (word_of_int 300000))
          \<longleftrightarrow> - 2097152 \<le> (300000 :: int) \<and> (300000 :: int) \<le> 2097151"
    using T [THEN conjunct1] T [THEN conjunct2, THEN conjunct2, THEN conjunct1]
      T [THEN conjunct2, THEN conjunct2, THEN conjunct2, THEN conjunct1]
    by simp_all
  have nx: "\<not> U32_CanEncode Customxy_U32Enc (PackSigned (word_of_int 3000000))"
    using fx by simp
  have ny: "U32_CanEncode Customxy_U32Enc (PackSigned (word_of_int 300000))"
    using fy by simp
  have s: "Customxy_Set exact_env \<lparr>storage_x = 0, storage_y = 0\<rparr>
        (mk_CIExy (Fin 3) (Fin (3 / 10)))
       = (JXL_FAILURE ''Unable to encode XY %f %f'', \<lparr>storage_x = 3000000, storage_y = 300000\<rparr>)"
    unfolding T' using nx by simp
  show ?thesis
    using r nx ny s by (simp add: accurate_exact_env)
qed
subsection \<open>Customxy.Set followed by Get\<close>

text \<open>
  Claim C3 as stated fails: \<open>x = y = 3\<close> lies in \<open>[-4, 4]\<close> and is a multiple of
  \<open>1e-6\<close>, yet \<open>Set\<close> fails (the packed form of 3000000 is 6000000, beyond the
  last tier). All the arithmetic on this input is exact in both floating point
  formats, so the exact environment computes what the code computes.
\<close>

theorem Customxy_roundtrip_counterexample:
  "fp_le (Fin (- 4)) (Fin 3) \<and> fp_le (Fin 3) (Fin 4)
   \<and> 3 = real_of_int 3000000 / 1000000
   \<and> \<not> IsOK (fst (Customxy_Set exact_env \<lparr>storage_x = 0, storage_y = 0\<rparr>
                       (mk_CIExy (Fin 3) (Fin 3))))"
proof -
  have sx: "stored_i32 exact_env (Fin 3) = 3000000"
    by (simp add: stored_i32_def exact_env_def round_half_away_def float_to_int32_def
        trunc_zero_def)
  have "\<not> unat (PackSigned (3000000 :: 32 word)) \<le> 4194303"
    by (simp add: PackSigned_fits)
  then show ?thesis
    by (simp add: Customxy_Set_in_range sx)
qed

text \<open>
  Claim C3, amended. Let \<open>x\<close> and \<open>y\<close> be in \<open>[-4, 4]\<close> and be the
  \<open>double\<close> values of the multiples \<open>kx * 1e-6\<close> and \<open>ky * 1e-6\<close> (within the
  relative error \<open>2^-53\<close> of them) with \<open>kx\<close> and \<open>ky\<close> between \<open>-2097152\<close>
  and \<open>2097151\<close>. With accurate rounding, \<open>Set\<close> succeeds and stores \<open>kx\<close>
  and \<open>ky\<close>, and \<open>Get\<close> then returns finite coordinates within \<open>1e-6\<close> of
  \<open>x\<close> and \<open>y\<close>.
\<close>

theorem Customxy_Set_Get_roundtrip:
  assumes acc: "accurate E"
    and x: "- 4 \<le> x" "x \<le> 4" and y: "- 4 \<le> y" "y \<le> 4"
    and nx: "\<bar>x - of_int kx / 1000000\<bar> \<le> \<bar>of_int kx / 1000000\<bar> / 2 ^ 53"
    and ny: "\<bar>y - of_int ky / 1000000\<bar> \<le> \<bar>of_int ky / 1000000\<bar> / 2 ^ 53"
    and kx: "- 2097152 \<le> kx" "kx \<le> 2097151"
    and ky: "- 2097152 \<le> ky" "ky \<le> 2097151"
  shows "\<exists>gx gy.
      Customxy_Set E c (mk_CIExy (Fin x) (Fin y))
        = (StatusOK, c\<lparr>storage_x := word_of_int kx, storage_y := word_of_int ky\<rparr>)
      \<and> Customxy_Get E (snd (Customxy_Set E c (mk_CIExy (Fin x) (Fin y))))
        = mk_CIExy (Fin gx) (Fin gy)
      \<and> \<bar>gx - x\<bar> \<le> 1 / 1000000 \<and> \<bar>gy - y\<bar> \<le> 1 / 1000000"
proof -
  have ax: "\<bar>kx\<bar> \<le> 4000000" and ay: "\<bar>ky\<bar> \<le> 4000000"
    using kx ky by linarith+
  have nx': "\<bar>x - of_int kx / 1000000\<bar> \<le> \<bar>of_int kx / 1000000\<bar> / 9007199254740992"
    using nx by simp
  have ny': "\<bar>y - of_int ky / 1000000\<bar> \<le> \<bar>of_int ky / 1000000\<bar> / 9007199254740992"
    using ny by simp
  have sx: "stored_i32 E (Fin x) = word_of_int kx"
    using acc nx' ax by (rule stored_multiple)
  have sy: "stored_i32 E (Fin y) = word_of_int ky"
    using acc ny' ay by (rule stored_multiple)
  have ix: "sint (word_of_int kx :: 32 word) = kx"
    by (rule sint_word_of_int_32) (use kx in linarith)+
  have iy: "sint (word_of_int ky :: 32 word) = ky"
    by (rule sint_word_of_int_32) (use ky in linarith)+
  have set: "Customxy_Set E c (mk_CIExy (Fin x) (Fin y))
        = (StatusOK, c\<lparr>storage_x := word_of_int kx, storage_y := word_of_int ky\<rparr>)"
    using x y kx ky by (simp add: Customxy_Set_in_range sx sy PackSigned_fits ix iy)
  obtain gx where gx: "F64FromCustomxyI32 E (word_of_int kx) = Fin gx"
    "\<bar>gx - of_int kx / 1000000\<bar> \<le> 9 / 9007199254740992"
    using F64From_near [OF acc ax] by blast
  obtain gy where gy: "F64FromCustomxyI32 E (word_of_int ky) = Fin gy"
    "\<bar>gy - of_int ky / 1000000\<bar> \<le> 9 / 9007199254740992"
    using F64From_near [OF acc ay] by blast
  have bx: "\<bar>real_of_int kx / 1000000\<bar> \<le> 4" and "by": "\<bar>real_of_int ky / 1000000\<bar> \<le> 4"
    using ax ay by simp_all
  have "\<bar>gx - x\<bar> \<le> 1 / 1000000"
    using gx(2) nx' bx by linarith
  moreover have "\<bar>gy - y\<bar> \<le> 1 / 1000000"
    using gy(2) ny' "by" by linarith
  moreover have "Customxy_Get E (snd (Customxy_Set E c (mk_CIExy (Fin x) (Fin y))))
        = mk_CIExy (Fin gx) (Fin gy)"
    unfolding set by (simp add: Customxy_Get_def gx(1) gy(1) mk_CIExy_def)
  ultimately show ?thesis using set by blast
qed

theorem Customxy_Set_Get_roundtrip_witness:
  "accurate exact_env
   \<and> (- 4 \<le> (1 / 2 :: real)) \<and> ((1 / 2 :: real) \<le> 4)
   \<and> \<bar>(1 / 2 :: real) - of_int 500000 / 1000000\<bar> \<le> \<bar>of_int 500000 / 1000000\<bar> / 2 ^ 53
   \<and> (- 2097152 \<le> (500000 :: int)) \<and> ((500000 :: int) \<le> 2097151)
   \<and> (\<exists>gx gy.
      Customxy_Set exact_env \<lparr>storage_x = 0, storage_y = 0\<rparr> (mk_CIExy (Fin (1 / 2)) (Fin (1 / 2)))
        = (StatusOK, \<lparr>storage_x = 500000, storage_y = 500000\<rparr>)
      \<and> Customxy_Get exact_env \<lparr>storage_x = 500000, storage_y = 500000\<rparr>
        = mk_CIExy (Fin gx) (Fin gy)
      \<and> \<bar>gx - 1 / 2\<bar> \<le> 1 / 1000000 \<and> \<bar>gy - 1 / 2\<bar> \<le> 1 / 1000000)"
  using Customxy_Set_Get_roundtrip [of exact_env "1 / 2" "1 / 2" 500000 500000
      "\<lparr>storage_x = 0, storage_y = 0\<rparr>"]
  by (auto simp add: accurate_exact_env) blast

subsection \<open>SetGamma\<close>

lemma fp_lt_NaN [simp]: "fp_lt a NaN = False"
  by (cases a) simp_all

lemma fp_total: "a \<noteq> NaN \<Longrightarrow> b \<noteq> NaN \<Longrightarrow> fp_lt a b \<or> fp_eq a b \<or> fp_lt b a"
  by (cases a; cases b) auto

lemma fp_lt_not_le: "a \<noteq> NaN \<Longrightarrow> b \<noteq> NaN \<Longrightarrow> fp_lt a b \<longleftrightarrow> \<not> fp_le b a"
  by (cases a; cases b) (auto simp add: fp_le_def)

text \<open>
  For every gamma that is not a NaN (the lower bound being a number), \<open>SetGamma\<close>
  fails exactly when the gamma is outside the interval from the lower bound to 1, and
  otherwise snaps to Linear, then to DCI, and else stores the rounded product with
  \<open>have_gamma\<close> set and the named curve Unknown.
\<close>

lemma SetGamma_not_NaN:
  assumes "g \<noteq> NaN" "gamma_lower_bound E \<noteq> NaN"
  shows "SetGamma E t g =
     (if \<not> (fp_le (gamma_lower_bound E) g \<and> fp_le g (Fin 1))
      then (JXL_FAILURE ''Invalid gamma %f'', t)
      else if ApproxEq E g (Fin 1)
      then (StatusOK, t\<lparr>have_gamma := False, transfer_function := kLinear\<rparr>)
      else if ApproxEq E g (fp_div (rnd64 E) (Fin 1) (lit64 E (26 / 10)))
      then (StatusOK, t\<lparr>have_gamma := False, transfer_function := TransferFunction.kDCI\<rparr>)
      else (StatusOK,
            t\<lparr>have_gamma := True,
               gamma := float_to_uint32 E
                 (roundf (fp_to_float (rnd32 E) (fp_mul (rnd64 E) g (Fin (real (kGammaMul E)))))),
               transfer_function := TransferFunction.kUnknown\<rparr>))"
  using assms
  by (simp add: SetGamma_def fp_gt_def fp_lt_not_le Let_def)

text \<open>
  Claim C5 fails on the code for the gamma NaN, which is outside every interval:
  both comparisons of the range test are false, so \<open>SetGamma\<close> returns success,
  and unless \<open>ApproxEq\<close> accepts the NaN it stores the undefined conversion of a
  NaN as the gamma, with \<open>have_gamma\<close> set.
\<close>

theorem SetGamma_NaN_succeeds:
  "SetGamma E t NaN = (StatusOK, nan_gamma_result E t)"
  by (simp add: SetGamma_def fp_gt_def nan_gamma_result_def float_to_uint32_def Let_def)

subsection \<open>SetWhitePoint\<close>

text \<open>
  Claim C6. \<open>SetWhitePoint\<close> fails at once, changing nothing, when \<open>x\<close> or
  \<open>y\<close> equals zero; otherwise it compares with D65, then E, then DCI, each by
  \<open>ApproxEq\<close> on both coordinates against the coordinates that
  \<open>GetWhitePoint\<close> gives for that preset, and sets the enumerator of the first
  that matches; if none matches it sets Custom and returns the status of
  \<open>Customxy::Set\<close> on the white point storage.
\<close>

theorem SetWhitePoint_order:
  "SetWhitePoint E c xy =
     (if fp_eq (xy_x xy) (Fin 0) \<or> fp_eq (xy_y xy) (Fin 0)
      then (JXL_FAILURE ''Invalid white point %f %f'', c)
      else if ApproxEq E (xy_x xy) (lit64 E (3127 / 10000)) \<and>
              ApproxEq E (xy_y xy) (lit64 E (3290 / 10000))
      then (StatusOK, c\<lparr>white_point := kD65\<rparr>)
      else if ApproxEq E (xy_x xy) (fp_div (rnd64 E) (Fin 1) (Fin 3)) \<and>
              ApproxEq E (xy_y xy) (fp_div (rnd64 E) (Fin 1) (Fin 3))
      then (StatusOK, c\<lparr>white_point := kE\<rparr>)
      else if ApproxEq E (xy_x xy) (lit64 E (314 / 1000)) \<and>
              ApproxEq E (xy_y xy) (lit64 E (351 / 1000))
      then (StatusOK, c\<lparr>white_point := WhitePoint.kDCI\<rparr>)
      else (fst (Customxy_Set E (white_custom c) xy),
            c\<lparr>white_point := WhitePoint.kCustom,
               white_custom := snd (Customxy_Set E (white_custom c) xy)\<rparr>))
   \<and> GetWhitePoint E (c\<lparr>white_point := kD65\<rparr>)
       = mk_CIExy (lit64 E (3127 / 10000)) (lit64 E (3290 / 10000))
   \<and> GetWhitePoint E (c\<lparr>white_point := kE\<rparr>)
       = mk_CIExy (fp_div (rnd64 E) (Fin 1) (Fin 3)) (fp_div (rnd64 E) (Fin 1) (Fin 3))
   \<and> GetWhitePoint E (c\<lparr>white_point := WhitePoint.kDCI\<rparr>)
       = mk_CIExy (lit64 E (314 / 1000)) (lit64 E (351 / 1000))"
  by (simp add: SetWhitePoint_def GetWhitePoint_def Let_def split: prod.splits)

subsection \<open>What a failing setter leaves behind\<close>

lemma SetWhitePoint_failure:
  assumes "SetWhitePoint E c xy = (st, c')" "\<not> IsOK st"
  shows "(fp_eq (xy_x xy) (Fin 0) \<or> fp_eq (xy_y xy) (Fin 0)) \<and> c' = c
     \<or> \<not> (fp_eq (xy_x xy) (Fin 0) \<or> fp_eq (xy_y xy) (Fin 0))
        \<and> c' = c\<lparr>white_point := WhitePoint.kCustom, white_custom := white_custom c'\<rparr>"
  using assms
  by (auto simp add: SetWhitePoint_def Let_def split: if_splits prod.splits)

lemma SetPrimaries_failure:
  assumes "SetPrimaries E c xy = Some (st, c')" "\<not> IsOK st"
  shows "primaries_have_zero xy \<and> c' = c
     \<or> \<not> primaries_have_zero xy
        \<and> c' = c\<lparr>primaries := Primaries.kCustom, red_custom := red_custom c',
                 green_custom := green_custom c', blue_custom := blue_custom c'\<rparr>"
  using assms
  by (auto simp add: SetPrimaries_def Let_def split: if_splits prod.splits)

text \<open>
  Claim C1, amended. A \<open>SetWhitePoint\<close> or \<open>SetPrimaries\<close> that fails because
  a coordinate is zero leaves the object as it was. One that fails later, inside
  \<open>Customxy::Set\<close>, has set the enumerator to Custom and may have written the
  custom coordinates; every other field of the object is as it was.
\<close>

theorem setter_failure_state:
  "(\<forall>st c'. SetWhitePoint E c wp = (st, c') \<and> \<not> IsOK st \<longrightarrow>
      (if fp_eq (xy_x wp) (Fin 0) \<or> fp_eq (xy_y wp) (Fin 0) then c' = c
       else c' = c\<lparr>white_point := WhitePoint.kCustom, white_custom := white_custom c'\<rparr>))
   \<and> (\<forall>st c'. SetPrimaries E c pr = Some (st, c') \<and> \<not> IsOK st \<longrightarrow>
      (if primaries_have_zero pr then c' = c
       else c' = c\<lparr>primaries := Primaries.kCustom, red_custom := red_custom c',
                    green_custom := green_custom c', blue_custom := blue_custom c'\<rparr>))"
  using SetWhitePoint_failure [of E c wp] SetPrimaries_failure [of E c pr]
  by (auto split: if_splits)

lemma Set_out_of_bounds:
  "Customxy_Set exact_env c (mk_CIExy (Fin (1 / 2)) (Fin 5))
     = (JXL_FAILURE ''F64 out of bounds for CustomxyI32'', c\<lparr>storage_x := 500000\<rparr>)"
  by (simp add: Customxy_Set_def F64ToCustomxyI32_def Let_def exact_env_def
      round_half_away_def float_to_int32_def trunc_zero_def)

lemma ApproxEq_exact_Fin:
  "ApproxEq exact_env (Fin a) (lit64 exact_env b) \<longleftrightarrow> \<bar>a - b\<bar> \<le> 1 / 1000"
  "ApproxEq exact_env (Fin a) (rnd64 exact_env b) \<longleftrightarrow> \<bar>a - b\<bar> \<le> 1 / 1000"
  by (simp_all add: exact_env_def exact_ApproxEq_def lit64_def)

lemma SetPrimaries_out_of_bounds:
  "SetPrimaries exact_env default_example out_of_bounds_primaries
     = Some (JXL_FAILURE ''F64 out of bounds for CustomxyI32'',
             default_example\<lparr>primaries := Primaries.kCustom,
                red_custom := \<lparr>storage_x = 500000, storage_y = 0\<rparr>\<rparr>)"
proof -
  have z: "\<not> primaries_have_zero out_of_bounds_primaries"
    by (simp add: primaries_have_zero_def out_of_bounds_primaries_def)
  have a: "\<not> ApproxEq_primaries exact_env out_of_bounds_primaries rx ry gx gy bx b_y"
    if "\<bar>5 - ry\<bar> > 1 / 1000" for rx ry gx gy bx b_y
    using that
    by (simp add: ApproxEq_primaries_def out_of_bounds_primaries_def ApproxEq_exact_Fin)
  show ?thesis
    using z by (simp add: SetPrimaries_def a HasPrimaries_def Let_def)
      (simp add: out_of_bounds_primaries_def Set_out_of_bounds default_example_def)
qed

lemma SetWhitePoint_out_of_bounds:
  "SetWhitePoint exact_env default_example (mk_CIExy (Fin (1 / 2)) (Fin 5))
     = (JXL_FAILURE ''F64 out of bounds for CustomxyI32'',
        default_example\<lparr>white_point := WhitePoint.kCustom,
           white_custom := \<lparr>storage_x = 500000, storage_y = 0\<rparr>\<rparr>)"
  by (simp add: SetWhitePoint_def ApproxEq_exact_Fin Let_def Set_out_of_bounds)
    (simp add: default_example_def)

text \<open>
  Claim C1 as stated fails. From the default object (primaries sRGB, white point
  D65, custom coordinates zero), \<open>SetPrimaries\<close> with the red primary
  \<open>(0.5, 5)\<close> fails in \<open>Customxy::Set\<close> on the \<open>y\<close> that is out of bounds,
  after the enumerator has become Custom and the red \<open>x\<close> has been stored;
  \<open>SetWhitePoint\<close> with \<open>(0.5, 5)\<close> fails likewise with the white point
  Custom and its \<open>x\<close> stored. The coordinates used are values of the
  \<open>double\<close> format and the arithmetic on them is exact.
\<close>

theorem setter_failure_counterexample:
  "SetPrimaries exact_env default_example out_of_bounds_primaries
     = Some (JXL_FAILURE ''F64 out of bounds for CustomxyI32'',
             default_example\<lparr>primaries := Primaries.kCustom,
                red_custom := \<lparr>storage_x = 500000, storage_y = 0\<rparr>\<rparr>)
   \<and> primaries default_example = Primaries.kSRGB
   \<and> red_custom default_example = \<lparr>storage_x = 0, storage_y = 0\<rparr>
   \<and> SetWhitePoint exact_env default_example (mk_CIExy (Fin (1 / 2)) (Fin 5))
     = (JXL_FAILURE ''F64 out of bounds for CustomxyI32'',
        default_example\<lparr>white_point := WhitePoint.kCustom,
           white_custom := \<lparr>storage_x = 500000, storage_y = 0\<rparr>\<rparr>)
   \<and> white_point default_example = kD65
   \<and> white_custom default_example = \<lparr>storage_x = 0, storage_y = 0\<rparr>"
  using SetPrimaries_out_of_bounds SetWhitePoint_out_of_bounds
  by (simp add: default_example_def)

theorem setter_failure_state_witness:
  "SetWhitePoint exact_env default_example (mk_CIExy (Fin (1 / 2)) (Fin 5))
     = (JXL_FAILURE ''F64 out of bounds for CustomxyI32'',
        default_example\<lparr>white_point := WhitePoint.kCustom,
           white_custom := \<lparr>storage_x = 500000, storage_y = 0\<rparr>\<rparr>)
   \<and> SetPrimaries exact_env default_example out_of_bounds_primaries
     = Some (JXL_FAILURE ''F64 out of bounds for CustomxyI32'',
             default_example\<lparr>primaries := Primaries.kCustom,
                red_custom := \<lparr>storage_x = 500000, storage_y = 0\<rparr>\<rparr>)
   \<and> \<not> IsOK (JXL_FAILURE ''F64 out of bounds for CustomxyI32'')
   \<and> \<not> (fp_eq (Fin (1 / 2)) (Fin 0) \<or> fp_eq (Fin 5) (Fin 0))
   \<and> \<not> primaries_have_zero out_of_bounds_primaries
   \<and> default_example\<lparr>white_point := WhitePoint.kCustom,
           white_custom := \<lparr>storage_x = 500000, storage_y = 0\<rparr>\<rparr>
       = default_example\<lparr>white_point := WhitePoint.kCustom,
           white_custom := white_custom (default_example\<lparr>white_point := WhitePoint.kCustom,
              white_custom := \<lparr>storage_x = 500000, storage_y = 0\<rparr>\<rparr>)\<rparr>"
  using setter_failure_state [of exact_env default_example "mk_CIExy (Fin (1 / 2)) (Fin 5)"
      out_of_bounds_primaries]
    SetPrimaries_out_of_bounds SetWhitePoint_out_of_bounds
  by (simp add: primaries_have_zero_def out_of_bounds_primaries_def)

subsection \<open>The check for unknown fields in VisitFields\<close>

lemma no_icc_branch_after_descriptive:
  assumes "\<not> WantICC c2" "VisitFields_descriptive E V c2 v2 = Some (StatusOK, c6, v6)"
  shows "VisitFields_no_icc_branch E V c2 v2 =
     Some (if color_space c6 = ColorSpace.kUnknown \<or> IsUnknown (tf c6)
           then (JXL_FAILURE ''No ICC but cs %u and tf %u%s'', c6, v6)
           else (fst (CreateICC E c6), snd (CreateICC E c6), v6))"
  using assms
  by (simp add: VisitFields_no_icc_branch_def Conditional_def VisitFields_check_and_create_def
      split: prod.splits)

lemma white_point_want_icc:
  "VisitFields_white_point V c v = (st, c', v') \<Longrightarrow> want_icc c' = want_icc c"
  by (auto simp add: VisitFields_white_point_def Let_def split: if_splits prod.splits)

lemma primaries_want_icc:
  "VisitFields_primaries V c v = (st, c', v') \<Longrightarrow> want_icc c' = want_icc c"
  by (auto simp add: VisitFields_primaries_def Let_def split: if_splits prod.splits)

lemma descriptive_want_icc:
  assumes "VisitFields_descriptive E V c v = Some (st, c', v')"
  shows "want_icc c' = want_icc c"
proof -
  obtain st1 c1 v1 where w: "VisitFields_white_point V c v = (st1, c1, v1)"
    by (cases "VisitFields_white_point V c v")
  obtain st2 c2 v2 where p: "VisitFields_primaries V c1 v1 = (st2, c2, v2)"
    by (cases "VisitFields_primaries V c1 v1")
  have "want_icc c2 = want_icc c" "want_icc c1 = want_icc c"
    using white_point_want_icc [OF w] primaries_want_icc [OF p] by simp_all
  then show ?thesis
    using assms
    by (auto simp add: VisitFields_descriptive_def w p Let_def
        split: if_splits prod.splits option.splits)
qed

text \<open>
  Claim C7. Take a pass that does not take the all-default path, whose two leading
  fields are visited with success and leave \<open>want_icc\<close> false, and whose
  descriptive fields (white point, primaries, transfer function, rendering intent)
  are visited with success, leaving the object \<open>c6\<close>. If the color space of
  \<open>c6\<close> is Unknown or its transfer function is the named curve Unknown without
  gamma, the pass fails with "No ICC but cs ... and tf ..." and leaves \<open>c6\<close>.
  Otherwise that failure does not occur: the profile is regenerated in the same pass
  (the buffer is cleared and filled by the profile generator), and the status is the
  failure of the generator, or "Empty ICC" when it generated nothing, or success.
\<close>

theorem VisitFields_unknown_check:
  assumes "v_AllDefault V c v = (False, flag, v0)"
    and "VisitFields_leading V (c\<lparr>all_default := flag\<rparr>) v0 = (StatusOK, c2, v2)"
    and "\<not> WantICC c2"
    and "VisitFields_descriptive E V c2 v2 = Some (StatusOK, c6, v6)"
  shows "ColorEncoding_VisitFields E V c v =
     Some (if color_space c6 = ColorSpace.kUnknown \<or> IsUnknown (tf c6)
           then (JXL_FAILURE ''No ICC but cs %u and tf %u%s'', c6, v6)
           else if \<not> IsOK (fst (MaybeCreateProfile E (c6\<lparr>icc := []\<rparr>)))
           then (fst (MaybeCreateProfile E (c6\<lparr>icc := []\<rparr>)),
                 c6\<lparr>icc := snd (MaybeCreateProfile E (c6\<lparr>icc := []\<rparr>))\<rparr>, v6)
           else (if snd (MaybeCreateProfile E (c6\<lparr>icc := []\<rparr>)) = []
                 then JXL_FAILURE ''Empty ICC'' else StatusOK,
                 c6\<lparr>icc := snd (MaybeCreateProfile E (c6\<lparr>icc := []\<rparr>))\<rparr>, v6))
   \<and> (IsUnknown (tf c6) \<longleftrightarrow>
        \<not> have_gamma (tf c6) \<and> transfer_function (tf c6) = TransferFunction.kUnknown)"
proof -
  define b where "b = snd (MaybeCreateProfile E (c6\<lparr>icc := []\<rparr>))"
  define s where "s = fst (MaybeCreateProfile E (c6\<lparr>icc := []\<rparr>))"
  have nw: "\<not> want_icc c6"
    using descriptive_want_icc [OF assms(4)] assms(3) by (simp add: WantICC_def)
  have fin: "VisitFields_final V (c6\<lparr>icc := b\<rparr>) =
      (if b = [] then JXL_FAILURE ''Empty ICC'' else StatusOK)"
    using nw by (simp add: VisitFields_final_def WantICC_def ICC_def)
  have cr: "CreateICC E c6 = (s, c6\<lparr>icc := b\<rparr>)"
    by (simp add: CreateICC_def Let_def s_def b_def split: prod.splits)
  have br: "VisitFields_no_icc_branch E V c2 v2 =
     Some (if color_space c6 = ColorSpace.kUnknown \<or> IsUnknown (tf c6)
           then (JXL_FAILURE ''No ICC but cs %u and tf %u%s'', c6, v6)
           else (s, c6\<lparr>icc := b\<rparr>, v6))"
    using no_icc_branch_after_descriptive [OF assms(3,4)] by (simp add: cr)
  have "ColorEncoding_VisitFields E V c v =
     Some (if color_space c6 = ColorSpace.kUnknown \<or> IsUnknown (tf c6)
           then (JXL_FAILURE ''No ICC but cs %u and tf %u%s'', c6, v6)
           else if \<not> IsOK s then (s, c6\<lparr>icc := b\<rparr>, v6)
           else (if b = [] then JXL_FAILURE ''Empty ICC'' else StatusOK, c6\<lparr>icc := b\<rparr>, v6))"
    by (simp add: ColorEncoding_VisitFields_def assms(1,2) br fin)
  then show ?thesis
    by (simp add: s_def b_def IsUnknown_def)
qed

lemma WritingVisitor_simps:
  "v_IsReading WritingVisitor = False"
  "v_AllDefault WritingVisitor c v = (False, False, v)"
  "v_Bool WritingVisitor b0 b v = (StatusOK, b, v)"
  "v_Enum_ColorSpace WritingVisitor cs0 cs v = (StatusOK, cs, v)"
  "v_Enum_WhitePoint WritingVisitor wp0 wp v = (StatusOK, wp, v)"
  "v_Enum_Primaries WritingVisitor p0 p v = (StatusOK, p, v)"
  "v_Enum_TransferFunction WritingVisitor f0 f v = (StatusOK, f, v)"
  "v_Enum_RenderingIntent WritingVisitor ri0 ri v = (StatusOK, ri, v)"
  by (simp_all add: WritingVisitor_def)

lemma descriptive_Writing_unknown:
  "VisitFields_descriptive exact_env WritingVisitor unknown_example ()
     = Some (StatusOK, unknown_example, ())"
  by (simp add: VisitFields_descriptive_def VisitFields_white_point_def
      VisitFields_primaries_def CustomTransferFunction_VisitFields_def
      CustomTransferFunction_VisitFields_gamma_def SetImplicit_def Conditional_def
      ImplicitWhitePoint_def HasPrimaries_def WritingVisitor_simps unknown_example_def
      default_example_def)

theorem VisitFields_unknown_check_witness:
  "v_AllDefault WritingVisitor unknown_example () = (False, False, ())
   \<and> VisitFields_leading WritingVisitor (unknown_example\<lparr>all_default := False\<rparr>) ()
       = (StatusOK, unknown_example, ())
   \<and> \<not> WantICC unknown_example
   \<and> VisitFields_descriptive exact_env WritingVisitor unknown_example ()
       = Some (StatusOK, unknown_example, ())
   \<and> ColorEncoding_VisitFields exact_env WritingVisitor unknown_example ()
       = Some (JXL_FAILURE ''No ICC but cs %u and tf %u%s'', unknown_example, ())
   \<and> v_AllDefault InitVisitor default_example () = (False, True, ())
   \<and> VisitFields_leading InitVisitor (default_example\<lparr>all_default := True\<rparr>) ()
       = (StatusOK, default_example, ())
   \<and> \<not> WantICC default_example
   \<and> VisitFields_descriptive exact_env InitVisitor default_example ()
       = Some (StatusOK, default_example, ())
   \<and> ColorEncoding_VisitFields exact_env InitVisitor default_example ()
       = Some (StatusOK, default_example, ())"
proof -
  have l1: "VisitFields_leading WritingVisitor (unknown_example\<lparr>all_default := False\<rparr>) ()
       = (StatusOK, unknown_example, ())"
    by (simp add: VisitFields_leading_def WritingVisitor_simps unknown_example_def
        default_example_def)
  have w1: "\<not> WantICC unknown_example"
    by (simp add: WantICC_def unknown_example_def default_example_def)
  have l2: "VisitFields_leading InitVisitor (default_example\<lparr>all_default := True\<rparr>) ()
       = (StatusOK, default_example, ())"
    by (simp add: VisitFields_leading_def InitVisitor_simps default_example_def)
  have w2: "\<not> WantICC default_example"
    by (simp add: WantICC_def default_example_def)
  have d2: "VisitFields_descriptive exact_env InitVisitor default_example ()
       = Some (StatusOK, default_example, ())"
    using descriptive_Init [of default_example exact_env "()"]
    by (simp add: default_example_def CustomTransferFunction_default_def exact_env_def)
  have m: "MaybeCreateProfile exact_env (default_example\<lparr>icc := []\<rparr>) = (StatusOK, [1])"
    by (simp add: exact_env_def exact_MaybeCreateProfile_def default_example_def)
  have i: "default_example\<lparr>icc := [1]\<rparr> = default_example"
    by (simp add: default_example_def)
  have k: "color_space default_example = kRGB" "\<not> IsUnknown (tf default_example)"
    "color_space unknown_example = ColorSpace.kUnknown"
    by (simp_all add: default_example_def unknown_example_def IsUnknown_def)
  have r1: "ColorEncoding_VisitFields exact_env WritingVisitor unknown_example ()
       = Some (JXL_FAILURE ''No ICC but cs %u and tf %u%s'', unknown_example, ())"
    using VisitFields_unknown_check [of WritingVisitor unknown_example "()" False "()"
        unknown_example "()" exact_env unknown_example "()",
        OF WritingVisitor_simps(2) l1 w1 descriptive_Writing_unknown]
    by (simp add: k)
  have r2: "ColorEncoding_VisitFields exact_env InitVisitor default_example ()
       = Some (StatusOK, default_example, ())"
    using VisitFields_unknown_check [of InitVisitor default_example "()" True "()"
        default_example "()" exact_env default_example "()",
        OF InitVisitor_simps(2) l2 w2 d2]
    by (simp add: k m i)
  show ?thesis
    using r1 r2 l1 w1 l2 w2 d2 descriptive_Writing_unknown
    by (simp add: WritingVisitor_simps InitVisitor_simps)
qed

subsection \<open>SetFieldsFromICC\<close>

lemma SetFieldsFromICC_start:
  "SetFieldsFromICC E cms c =
     (if icc c = [] then Some (JXL_FAILURE ''Empty ICC profile'', poisoned c)
      else
        case set_fields_from_icc cms (icc c) of
          None \<Rightarrow> Some (JXL_FAILURE ''set_fields_from_icc'', poisoned c)
        | Some (external, is_cmyk) \<Rightarrow>
            if is_cmyk then Some (StatusOK, (poisoned c)\<lparr>cmyk := True\<rparr>)
            else
              case FromExternal E ((poisoned c)\<lparr>icc := []\<rparr>) external of
                None \<Rightarrow> None
              | Some (st, c2) \<Rightarrow>
                  if \<not> IsOK st then Some (st, c2)
                  else Some (StatusOK, c2\<lparr>icc := icc c\<rparr>))"
  by (simp add: SetFieldsFromICC_def poisoned_def SetColorSpace_def SetTransferFunction_def
      Let_def split: option.splits prod.splits)

text \<open>
  Claim C9, amended. \<open>SetFieldsFromICC\<close> first sets the color space to Unknown
  and the transfer function to the named curve Unknown. A call that fails because
  the profile buffer is empty, or because the color management system cannot parse
  it, leaves the object in exactly this state. A profile parsed as CMYK sets the
  \<open>cmyk\<close> flag on this state and succeeds. A successful call on a profile that
  is not CMYK leaves the bytes of the profile as they were.
\<close>

theorem SetFieldsFromICC_poison:
  "(icc c = [] \<longrightarrow>
      SetFieldsFromICC E cms c = Some (JXL_FAILURE ''Empty ICC profile'', poisoned c))
   \<and> (icc c \<noteq> [] \<and> set_fields_from_icc cms (icc c) = None \<longrightarrow>
      SetFieldsFromICC E cms c = Some (JXL_FAILURE ''set_fields_from_icc'', poisoned c))
   \<and> (\<forall>ext. icc c \<noteq> [] \<and> set_fields_from_icc cms (icc c) = Some (ext, True) \<longrightarrow>
      SetFieldsFromICC E cms c = Some (StatusOK, (poisoned c)\<lparr>cmyk := True\<rparr>))
   \<and> (\<forall>ext c'. icc c \<noteq> [] \<and> set_fields_from_icc cms (icc c) = Some (ext, False) \<and>
         SetFieldsFromICC E cms c = Some (StatusOK, c') \<longrightarrow> icc c' = icc c)
   \<and> color_space (poisoned c) = ColorSpace.kUnknown
   \<and> \<not> have_gamma (tf (poisoned c))
   \<and> transfer_function (tf (poisoned c)) = TransferFunction.kUnknown"
  by (auto simp add: SetFieldsFromICC_start poisoned_def split: option.splits prod.splits if_splits)

lemma FromExternal_zero_white:
  "FromExternal exact_env ((poisoned default_example)\<lparr>icc := []\<rparr>) zero_white_external
     = Some (JXL_FAILURE ''Invalid white point %f %f'',
             (SetColorSpace ((poisoned default_example)\<lparr>icc := []\<rparr>) kRGB)
                \<lparr>white_point := WhitePoint.kCustom\<rparr>)"
  by (simp add: FromExternal_def FromExternal_white_point_def
      zero_white_external_def srgb_external_def SetWhitePoint_def Let_def)

lemma FromExternal_srgb:
  "FromExternal exact_env ((poisoned default_example)\<lparr>icc := []\<rparr>) srgb_external
     = Some (StatusOK, default_example)"
  by (simp add: FromExternal_def FromExternal_white_point_def SetColorSpace_def
      FromExternal_primaries_def FromExternal_tf_def FromExternal_rendering_intent_def
      srgb_external_def Let_def CreateICC_def GetColorSpace_def SetTransferFunction_def
      CustomTransferFunction_default_def)
    (simp add: exact_env_def exact_MaybeCreateProfile_def poisoned_def default_example_def)

text \<open>
  Claim C9 as stated fails: not every failing call leaves the poisoned state. When
  the parser answers an encoding whose custom white point has \<open>x = 0\<close>, the call
  fails inside \<open>FromExternal\<close> with "Invalid white point", after the color space
  has been set to RGB and the white point to Custom; the profile bytes that were
  moved out of the object are not put back.
\<close>

theorem SetFieldsFromICC_poison_counterexample:
  "SetFieldsFromICC exact_env (cms_returning zero_white_external) default_example
     = Some (JXL_FAILURE ''Invalid white point %f %f'',
             (SetColorSpace ((poisoned default_example)\<lparr>icc := []\<rparr>) kRGB)
                \<lparr>white_point := WhitePoint.kCustom\<rparr>)
   \<and> color_space ((SetColorSpace ((poisoned default_example)\<lparr>icc := []\<rparr>) kRGB)
                \<lparr>white_point := WhitePoint.kCustom\<rparr>) \<noteq> ColorSpace.kUnknown
   \<and> icc default_example = [1]"
  by (simp add: SetFieldsFromICC_start cms_returning_def FromExternal_zero_white)
    (simp add: default_example_def SetColorSpace_def)

theorem SetFieldsFromICC_poison_witness:
  "icc (default_example\<lparr>icc := []\<rparr>) = []
   \<and> SetFieldsFromICC exact_env cms_failing (default_example\<lparr>icc := []\<rparr>)
       = Some (JXL_FAILURE ''Empty ICC profile'', poisoned (default_example\<lparr>icc := []\<rparr>))
   \<and> icc default_example \<noteq> []
   \<and> set_fields_from_icc cms_failing (icc default_example) = None
   \<and> SetFieldsFromICC exact_env cms_failing default_example
       = Some (JXL_FAILURE ''set_fields_from_icc'', poisoned default_example)
   \<and> set_fields_from_icc (cms_returning srgb_external) (icc default_example)
       = Some (srgb_external, False)
   \<and> SetFieldsFromICC exact_env (cms_returning srgb_external) default_example
       = Some (StatusOK, default_example)"
proof -
  have s: "SetFieldsFromICC exact_env (cms_returning srgb_external) default_example
       = Some (StatusOK, default_example)"
    by (simp add: SetFieldsFromICC_start cms_returning_def FromExternal_srgb)
      (simp add: default_example_def)
  have n: "icc default_example \<noteq> []"
    by (simp add: default_example_def)
  have e: "icc (default_example\<lparr>icc := []\<rparr>) = []"
    by simp
  have a: "SetFieldsFromICC exact_env cms_failing (default_example\<lparr>icc := []\<rparr>)
       = Some (JXL_FAILURE ''Empty ICC profile'', poisoned (default_example\<lparr>icc := []\<rparr>))"
    using SetFieldsFromICC_poison
        [where c = "default_example\<lparr>icc := []\<rparr>" and E = exact_env and cms = cms_failing,
         THEN conjunct1] e
    by (rule mp)
  have f: "set_fields_from_icc cms_failing (icc default_example) = None"
    by (simp add: cms_failing_def)
  have b: "SetFieldsFromICC exact_env cms_failing default_example
       = Some (JXL_FAILURE ''set_fields_from_icc'', poisoned default_example)"
    using SetFieldsFromICC_poison
        [where c = default_example and E = exact_env and cms = cms_failing,
         THEN conjunct2, THEN conjunct1] n f
    by blast
  have r: "set_fields_from_icc (cms_returning srgb_external) (icc default_example)
       = Some (srgb_external, False)"
    by (simp add: cms_returning_def)
  show ?thesis
    using e a n f b r s by blast
qed

subsection \<open>AdaptToXYZD50\<close>

lemma fp_simps_Fin [simp]:
  "fp_gt (Fin a) (Fin b) \<longleftrightarrow> b < a"
  by (simp add: fp_gt_def)

lemma exact_lits [simp]:
  "lit32 exact_env r = Fin r" "lit64 exact_env r = Fin r"
  "rnd32 exact_env = Fin" "rnd64 exact_env = Fin"
  by (simp_all add: lit32_def lit64_def exact_env_def)

lemma exact_mats [simp]:
  "Mul3x3Vector exact_env = exact_Mul3x3Vector" "Mul3x3Matrix exact_env = exact_Mul3x3Matrix"
  by (simp_all add: exact_env_def)

lemma D65_lms_unfolded:
  "Mul3x3Vector exact_env
     ((rnd32 exact_env (8951 / 10000), rnd32 exact_env (2664 / 10000),
       rnd32 exact_env (- 1614 / 10000)),
      (rnd32 exact_env (- 7502 / 10000), rnd32 exact_env (17135 / 10000),
       rnd32 exact_env (367 / 10000)),
      (rnd32 exact_env (389 / 10000), rnd32 exact_env (- 685 / 10000),
       rnd32 exact_env (10296 / 10000)))
     (fp_div (rnd32 exact_env) D65_x D65_y, Fin 1,
      fp_div (rnd32 exact_env)
        (fp_sub (rnd32 exact_env) (fp_sub (rnd32 exact_env) (Fin 1) D65_x) D65_y) D65_y)
   = (Fin (247771 / 263200), Fin (4890051 / 4700000), Fin (5121903 / 4700000))"
  by (simp add: exact_Mul3x3Vector_def dot3_def D65_x_def D65_y_def)

lemma D50_lms_unfolded:
  "Mul3x3Vector exact_env
     ((rnd32 exact_env (8951 / 10000), rnd32 exact_env (2664 / 10000),
       rnd32 exact_env (- 1614 / 10000)),
      (rnd32 exact_env (- 7502 / 10000), rnd32 exact_env (17135 / 10000),
       rnd32 exact_env (367 / 10000)),
      (rnd32 exact_env (389 / 10000), rnd32 exact_env (- 685 / 10000),
       rnd32 exact_env (10296 / 10000)))
     (rnd32 exact_env (96422 / 100000), Fin 1, rnd32 exact_env (82521 / 100000))
   = (Fin (249071107 / 250000000), Fin (1020427363 / 1000000000),
      Fin (409322187 / 500000000))"
  by (simp add: exact_Mul3x3Vector_def dot3_def)

text \<open>
  Claim C8. Write \<open>B\<close> for the Bradford matrix and \<open>Binv\<close> for its inverse, as the
  source spells their entries, \<open>w0 = wx / wy\<close> and \<open>w2 = (1 - wx - wy) / wy\<close> for
  the two quotients, \<open>(l0, l1, l2) = B * (w0, 1, w2)\<close> for the cone response of the
  white point, \<open>(m0, m1, m2) = B * (0.96422, 1, 0.82521)\<close> for that of D50, and
  \<open>a0 = m0 / l0\<close>, \<open>a4 = m1 / l1\<close>, \<open>a8 = m2 / l2\<close> for the three ratios, all in
  \<open>float\<close> arithmetic. \<open>AdaptToXYZD50\<close> fails exactly when the white point is out
  of range (\<open>wx < 0\<close>, \<open>wx > 1\<close>, \<open>wy <= 0\<close> or \<open>wy > 1\<close>), or \<open>w0\<close> or \<open>w2\<close>
  is not finite, or one of \<open>l0\<close>, \<open>l1\<close>, \<open>l2\<close> equals zero, or one of \<open>a0\<close>,
  \<open>a4\<close>, \<open>a8\<close> is not finite. A failing call leaves the matrix as it was; a
  successful call writes \<open>Binv * (diag(a0, a4, a8) * B)\<close>.
  \<open>AdaptToXYZD50(0.5, 0.0)\<close> fails.
\<close>

theorem AdaptToXYZD50_failures:
  assumes B: "B =
      ((rnd32 E (8951 / 10000), rnd32 E (2664 / 10000), rnd32 E (- 1614 / 10000)),
       (rnd32 E (- 7502 / 10000), rnd32 E (17135 / 10000), rnd32 E (367 / 10000)),
       (rnd32 E (389 / 10000), rnd32 E (- 685 / 10000), rnd32 E (10296 / 10000)))"
    and Binv: "Binv =
      ((rnd32 E (9869929 / 10 ^ 7), rnd32 E (- 1470543 / 10 ^ 7), rnd32 E (1599627 / 10 ^ 7)),
       (rnd32 E (4323053 / 10 ^ 7), rnd32 E (5183603 / 10 ^ 7), rnd32 E (492912 / 10 ^ 7)),
       (rnd32 E (- 85287 / 10 ^ 7), rnd32 E (400428 / 10 ^ 7), rnd32 E (9684867 / 10 ^ 7)))"
    and w0: "w0 = fp_div (rnd32 E) wx wy"
    and w2: "w2 = fp_div (rnd32 E) (fp_sub (rnd32 E) (fp_sub (rnd32 E) (Fin 1) wx) wy) wy"
    and lms: "Mul3x3Vector E B (w0, Fin 1, w2) = (l0, l1, l2)"
    and lms50: "Mul3x3Vector E B (rnd32 E (96422 / 100000), Fin 1, rnd32 E (82521 / 100000))
                 = (m0, m1, m2)"
    and a0: "a0 = fp_div (rnd32 E) m0 l0"
    and a4: "a4 = fp_div (rnd32 E) m1 l1"
    and a8: "a8 = fp_div (rnd32 E) m2 l2"
  shows "(\<not> IsOK (fst (AdaptToXYZD50 E wx wy matrix)) \<longleftrightarrow>
      (fp_lt wx (Fin 0) \<or> fp_lt (Fin 1) wx \<or> fp_lt wy (Fin 0) \<or> fp_eq wy (Fin 0)
         \<or> fp_lt (Fin 1) wy)
      \<or> \<not> isfinite w0 \<or> \<not> isfinite w2
      \<or> fp_eq l0 (Fin 0) \<or> fp_eq l1 (Fin 0) \<or> fp_eq l2 (Fin 0)
      \<or> \<not> isfinite a0 \<or> \<not> isfinite a4 \<or> \<not> isfinite a8)
   \<and> snd (AdaptToXYZD50 E wx wy matrix) =
      (if IsOK (fst (AdaptToXYZD50 E wx wy matrix))
       then Mul3x3Matrix E Binv
              (Mul3x3Matrix E
                 ((a0, Fin 0, Fin 0), (Fin 0, a4, Fin 0), (Fin 0, Fin 0, a8)) B)
       else matrix)
   \<and> \<not> IsOK (fst (AdaptToXYZD50 E (Fin (1 / 2)) (Fin 0) matrix))"
proof -
  have half: "white_point_out_of_range (Fin (1 / 2)) (Fin 0)"
    by (simp add: white_point_out_of_range_def fp_le_def)
  have kB: "kBradford E = B" and kBi: "kBradfordInv E = Binv"
    by (simp_all add: kBradford_def kBradfordInv_def B Binv lit32_def)
  have ww: "white_w0 E wx wy = w0" "white_w2 E wx wy = w2"
    by (simp_all add: white_w0_def white_w2_def w0 w2)
  have l: "white_lms E wx wy = (l0, l1, l2)"
    by (simp add: white_lms_def kB ww lms)
  have m: "white_lms50 E = (m0, m1, m2)"
    using lms50 by (simp add: white_lms50_def kB lit32_def)
  have a: "adapt_ratios E wx wy = (a0, a4, a8)"
    by (simp add: adapt_ratios_def l m a0 a4 a8)
  show ?thesis
    using half
    by (auto simp add: AdaptToXYZD50_def l a ww kB kBi diag3_def
        white_point_out_of_range_def fp_le_def fp_gt_def)
qed

text \<open>
  In the exact environment the white point D65 is adapted: the call succeeds and
  writes the matrix \<open>D50_adaptation_D65\<close>.
\<close>

theorem AdaptToXYZD50_failures_witness:
  "AdaptToXYZD50 exact_env D65_x D65_y (diag3 (Fin 1, Fin 1, Fin 1))
     = (StatusOK, D50_adaptation_D65)
   \<and> fp_div (rnd32 exact_env) D65_x D65_y = Fin (3127 / 3290)
   \<and> fp_div (rnd32 exact_env)
        (fp_sub (rnd32 exact_env) (fp_sub (rnd32 exact_env) (Fin 1) D65_x) D65_y) D65_y
       = Fin (3583 / 3290)
   \<and> fp_div (rnd32 exact_env) (Fin (249071107 / 250000000)) (Fin (247771 / 263200))
       = Fin (81944394203 / 77428437500)
   \<and> \<not> IsOK (fst (AdaptToXYZD50 exact_env (Fin (1 / 2)) (Fin 0) (diag3 (Fin 1, Fin 1, Fin 1))))"
proof -
  note T = AdaptToXYZD50_failures
    [where matrix = "diag3 (Fin 1, Fin 1, Fin 1)",
     OF refl refl refl refl D65_lms_unfolded D50_lms_unfolded refl refl refl]
  have ok: "IsOK (fst (AdaptToXYZD50 exact_env D65_x D65_y (diag3 (Fin 1, Fin 1, Fin 1))))"
    using T [THEN conjunct1] by (simp add: D65_x_def D65_y_def)
  then have st: "fst (AdaptToXYZD50 exact_env D65_x D65_y (diag3 (Fin 1, Fin 1, Fin 1)))
      = StatusOK"
    by (cases "fst (AdaptToXYZD50 exact_env D65_x D65_y (diag3 (Fin 1, Fin 1, Fin 1)))")
      simp_all
  have m: "snd (AdaptToXYZD50 exact_env D65_x D65_y (diag3 (Fin 1, Fin 1, Fin 1)))
      = D50_adaptation_D65"
    using T [THEN conjunct2, THEN conjunct1] ok
    by (simp add: exact_Mul3x3Matrix_def dot3_def col3_def D50_adaptation_D65_def)
  have r: "AdaptToXYZD50 exact_env D65_x D65_y (diag3 (Fin 1, Fin 1, Fin 1))
      = (StatusOK, D50_adaptation_D65)"
    using st m by (simp add: prod_eq_iff)
  have h: "\<not> IsOK (fst (AdaptToXYZD50 exact_env (Fin (1 / 2)) (Fin 0)
      (diag3 (Fin 1, Fin 1, Fin 1))))"
    using T [THEN conjunct2, THEN conjunct2] .
  show ?thesis
    using r h by (simp add: D65_x_def D65_y_def)
qed
end
